theory Spec2Isabelle
  imports Main "HOL-Library.Word" "HOL-Library.Monad_Syntax"
begin

section \<open>Decoded picture buffer of the H.264 reference decoder (ldecod, mbuffer.c)\<close>

text \<open>
  The functions embedded here are \<open>error\<close> (ldecod.c) and \<open>getDpbSize\<close>, \<open>init_dpb\<close>,
  \<open>free_dpb\<close>, \<open>alloc_frame_store\<close>, \<open>alloc_pic_motion\<close>, \<open>alloc_storable_picture\<close>,
  \<open>free_frame_store\<close>, \<open>free_pic_motion\<close> and \<open>free_storable_picture\<close> (mbuffer.c).

  Conventions. A C \<open>unsigned int\<close> is a \<open>32 word\<close>, a C \<open>int\<close> is an \<open>int\<close>, a flag is the
  \<open>int\<close> it is in C (non-zero is true). The fields of a struct keep their names behind a
  prefix naming the struct (\<open>sps_\<close>, \<open>vui_\<close>, \<open>vid_\<close>, \<open>inp_\<close>, \<open>dpb_\<close>, \<open>f_\<close> for a
  FrameStore, \<open>s_\<close> for a StorablePicture), since several structs share field names.
  What is written to stderr is a list of lines, threaded through the functions that
  print. A function whose C code can run into undefined behaviour (division by zero, a
  null or dangling pointer, freeing what is not allocated, signed overflow) or into
  \<open>no_mem_exit\<close> returns an option: \<open>Some\<close> is a normal return to the caller, \<open>None\<close> is
  a call that does not return normally (the crash, or the end of the session in
  \<open>no_mem_exit\<close>).
\<close>

subsection \<open>Integers and the error procedure\<close>

type_synonym u32 = "32 word"

definition INT_MIN :: int where
  "INT_MIN = - (2 ^ 31)"

definition INT_MAX :: int where
  "INT_MAX = 2 ^ 31 - 1"

text \<open>
  The value of an expression of type \<open>int\<close>: a result that an \<open>int\<close> cannot hold is
  undefined behaviour.
\<close>

definition c_int :: "int \<Rightarrow> int option" where
  "c_int x = (if INT_MIN \<le> x \<and> x \<le> INT_MAX then Some x else None)"

definition c_add :: "int \<Rightarrow> int \<Rightarrow> int option" where
  "c_add a b = c_int (a + b)"

definition c_sub :: "int \<Rightarrow> int \<Rightarrow> int option" where
  "c_sub a b = c_int (a - b)"

definition c_mul :: "int \<Rightarrow> int \<Rightarrow> int option" where
  "c_mul a b = c_int (a * b)"

text \<open>Division of C: the quotient is truncated towards zero.\<close>

definition c_div :: "int \<Rightarrow> int \<Rightarrow> int" where
  "c_div a b = sgn a * sgn b * (\<bar>a\<bar> div \<bar>b\<bar>)"

text \<open>
  Modelled from the spec: \<open>imin\<close> and \<open>imax\<close> are declared in ifunctions.h, which is not
  part of the sources; they are the minimum and the maximum of two \<open>int\<close>s ("clip to an
  absolute hard ceiling", "must be at least 1").
\<close>

definition imin :: "int \<Rightarrow> int \<Rightarrow> int" where
  "imin a b = (if a < b then a else b)"

definition imax :: "int \<Rightarrow> int \<Rightarrow> int" where
  "imax a b = (if a > b then a else b)"

text \<open>
  \<open>error\<close> of ldecod.c: the text goes to stderr and the procedure returns; the call of
  \<open>exit\<close> is commented out in the source, so the exit code is not used.
\<close>

definition error :: "string \<Rightarrow> int \<Rightarrow> string list \<Rightarrow> string list" where
  "error text code stderr = stderr @ [text]"

text \<open>
  Modelled from the spec: \<open>no_mem_exit\<close> is defined in memalloc.c, which is not part of the
  sources. "Failure to allocate any sub-buffer is fatal (out-of-memory is unrecoverable for
  this subsystem; it aborts the decode session)": the call does not return.
\<close>

definition no_mem_exit :: "string \<Rightarrow> 'a option" where
  "no_mem_exit place = None"

subsection \<open>Sequence parameters and what the headers leave open\<close>

record vui_seq_parameters_t =
  vui_bitstream_restriction_flag :: int
  vui_max_dec_frame_buffering :: u32

record seq_parameter_set_rbsp_t =
  sps_profile_idc :: u32
  sps_constrained_set3_flag :: int
  sps_level_idc :: u32
  sps_chroma_format_idc :: int
  sps_num_ref_frames :: u32
  sps_pic_width_in_mbs_minus1 :: u32
  sps_pic_height_in_map_units_minus1 :: u32
  sps_frame_mbs_only_flag :: int
  sps_vui_parameters_present_flag :: int
  sps_vui_seq_parameters :: vui_seq_parameters_t
  sps_max_dec_frame_buffering :: int

text \<open>
  The macro \<open>MVC_EXTENSION_ENABLE\<close>, the helpers \<open>is_FREXT_profile\<close> and \<open>RoundLog2\<close>, and
  the constants \<open>MVC_INIT_VIEW_ID\<close>, \<open>YUV400\<close> and \<open>MAX_NUM_SLICES\<close> come from headers that
  are not part of the sources. They are parameters of the model.
\<close>

record build_env =
  MVC_EXTENSION_ENABLE :: bool
  is_FREXT_profile :: "u32 \<Rightarrow> bool"
  RoundLog2 :: "int \<Rightarrow> int"
  MVC_INIT_VIEW_ID :: int
  YUV400 :: int
  MAX_NUM_SLICES :: nat

text \<open>
  Modelled from the spec: the profile codes \<open>MVC_HIGH\<close> and \<open>STEREO_HIGH\<close> are enumerators of
  defines.h, which is not part of the sources; they are the profile_idc values of the
  multiview profiles ("for multiview streams").
\<close>

definition MVC_HIGH :: int where
  "MVC_HIGH = 118"

definition STEREO_HIGH :: int where
  "STEREO_HIGH = 128"

text \<open>
  Modelled from the spec: \<open>MAX_PLANE\<close> and \<open>BLOCK_SHIFT\<close> are macros of defines.h, which is
  not part of the sources ("three parallel motion arrays", "per-4x4-block").
\<close>

definition MAX_PLANE :: nat where
  "MAX_PLANE = 3"

definition BLOCK_SHIFT :: nat where
  "BLOCK_SHIFT = 2"

text \<open>\<open>MAX_LIST_SIZE\<close> is defined in mbuffer.c.\<close>

definition MAX_LIST_SIZE :: int where
  "MAX_LIST_SIZE = 33"

text \<open>
  The table \<open>Map\<close> of configfile.h, for the two entries that configure the buffer:
  name, initial value, lower and upper limit.
\<close>

definition Map :: "(string \<times> int \<times> int \<times> int) list" where
  "Map = [(''DPBPLUS0'', 1, - 16, 16), (''DPBPLUS1'', 0, - 16, 16)]"

subsection \<open>Pictures, frame stores and the heap\<close>

type_synonym addr = nat

datatype PictureStructure = FRAME | TOP_FIELD | BOTTOM_FIELD

text \<open>
  Modelled from the spec: the allocators of memalloc.c (\<open>get_mem2Dpel_pad\<close>,
  \<open>get_mem3Dpel_pad\<close>, \<open>get_mem2Dmp\<close>) and their \<open>free_\<close> counterparts are not part of the
  sources. A plane or array belongs to the one picture it was allocated for ("releases
  all sub-buffers owned by the picture"), so it is kept in the picture's field: \<open>None\<close> is
  the null pointer, \<open>Some\<close> holds the dimensions the allocator was called with. The blocks
  that mbuffer.c gets from \<open>calloc\<close> for a picture are kept the same way.
\<close>

datatype buffer =
    Mem2Dpel_pad int int int int
  | Mem3Dpel_pad int int int int int
  | Mem2Dmp int int
  | Bytes int
  | Pointers int
  | Lut

record PicMotionParamsOld =
  mb_field :: "buffer option"

record StorablePicture =
  s_structure :: PictureStructure
  s_poc :: int
  s_top_poc :: int
  s_bottom_poc :: int
  s_frame_num :: int
  s_pic_num :: int
  s_long_term_pic_num :: int
  s_long_term_frame_idx :: int
  s_is_long_term :: int
  s_used_for_reference :: int
  s_is_output :: int
  s_non_existing :: int
  s_separate_colour_plane_flag :: int
  s_max_slice_id :: int
  s_size_x :: int
  s_size_y :: int
  s_size_x_cr :: int
  s_size_y_cr :: int
  s_size_x_m1 :: int
  s_size_y_m1 :: int
  s_size_x_cr_m1 :: int
  s_size_y_cr_m1 :: int
  s_coded_frame :: int
  s_mb_aff_frame_flag :: int
  s_PicSizeInMbs :: int
  s_iLumaPadY :: int
  s_iLumaPadX :: int
  s_iChromaPadY :: int
  s_iChromaPadX :: int
  s_imgY :: "buffer option"
  s_imgUV :: "buffer option"
  s_mv_info :: "buffer option"
  s_motion :: PicMotionParamsOld
  s_JVmv_info :: "buffer option list"
  s_JVmotion :: "PicMotionParamsOld list"
  s_iLumaStride :: int
  s_iChromaStride :: int
  s_iLumaExpandedHeight :: int
  s_iChromaExpandedHeight :: int
  s_top_field :: "addr option"
  s_bottom_field :: "addr option"
  s_frame :: "addr option"
  s_dec_ref_pic_marking_buffer :: "addr option"
  s_seiHasTone_mapping :: int
  s_tone_mapping_lut :: "buffer option"
  s_view_id :: int
  s_listX :: "buffer option list list"

record FrameStore =
  f_is_used :: int
  f_is_reference :: int
  f_is_long_term :: int
  f_is_orig_reference :: int
  f_is_output :: int
  f_frame :: "addr option"
  f_top_field :: "addr option"
  f_bottom_field :: "addr option"
  f_layer_id :: int
  f_view_id :: int
  f_inter_view_flag :: "int \<times> int"
  f_anchor_pic_flag :: "int \<times> int"

text \<open>
  What \<open>calloc\<close> and \<open>free\<close> work on: a cell holds a frame store, a picture, or an array of
  pointers to frame stores. \<open>calloc\<close> hands out the next address, which was never used
  before. There is memory enough: \<open>calloc\<close> is taken to succeed whenever the number of
  elements asked for is the one the program computed (a negative \<open>int\<close>, which becomes a
  huge \<open>size_t\<close>, is the one case where it returns null, see \<open>alloc_pic_motion\<close>). \<open>free\<close> of
  an address that holds nothing is the crash.
\<close>

datatype obj = FS FrameStore | SP StorablePicture | PA "addr option list"

record heap =
  cells :: "addr \<Rightarrow> obj option"
  brk :: addr

definition c_calloc :: "obj \<Rightarrow> heap \<Rightarrow> addr \<times> heap" where
  "c_calloc x h = (brk h, h\<lparr>cells := (cells h)(brk h \<mapsto> x), brk := Suc (brk h)\<rparr>)"

definition c_free :: "addr \<Rightarrow> heap \<Rightarrow> heap option" where
  "c_free a h = (if cells h a = None then None else Some (h\<lparr>cells := (cells h)(a := None)\<rparr>))"

definition read_fs :: "heap \<Rightarrow> addr \<Rightarrow> FrameStore option" where
  "read_fs h a = (case cells h a of Some (FS f) \<Rightarrow> Some f | _ \<Rightarrow> None)"

definition write_fs :: "addr \<Rightarrow> FrameStore \<Rightarrow> heap \<Rightarrow> heap option" where
  "write_fs a f h =
     (case cells h a of Some (FS _) \<Rightarrow> Some (h\<lparr>cells := (cells h)(a \<mapsto> FS f)\<rparr>) | _ \<Rightarrow> None)"

definition read_sp :: "heap \<Rightarrow> addr \<Rightarrow> StorablePicture option" where
  "read_sp h a = (case cells h a of Some (SP s) \<Rightarrow> Some s | _ \<Rightarrow> None)"

definition write_sp :: "addr \<Rightarrow> StorablePicture \<Rightarrow> heap \<Rightarrow> heap option" where
  "write_sp a s h =
     (case cells h a of Some (SP _) \<Rightarrow> Some (h\<lparr>cells := (cells h)(a \<mapsto> SP s)\<rparr>) | _ \<Rightarrow> None)"

text \<open>\<open>arr[i]\<close> and \<open>arr[i] = v\<close> for an array of pointers; outside the array is the crash.\<close>

definition read_pa :: "heap \<Rightarrow> addr option \<Rightarrow> nat \<Rightarrow> addr option option" where
  "read_pa h arr i =
     (case arr of
        None \<Rightarrow> None
      | Some a \<Rightarrow>
          (case cells h a of
             Some (PA xs) \<Rightarrow> if i < length xs then Some (xs ! i) else None
           | _ \<Rightarrow> None))"

definition write_pa :: "addr option \<Rightarrow> nat \<Rightarrow> addr option \<Rightarrow> heap \<Rightarrow> heap option" where
  "write_pa arr i v h =
     (case arr of
        None \<Rightarrow> None
      | Some a \<Rightarrow>
          (case cells h a of
             Some (PA xs) \<Rightarrow>
               if i < length xs then Some (h\<lparr>cells := (cells h)(a \<mapsto> PA (xs[i := v]))\<rparr>)
               else None
           | _ \<Rightarrow> None))"

text \<open>\<open>for (i = 0; i < n; i++) body\<close>, over a state that the body may crash on.\<close>

primrec for_upto :: "nat \<Rightarrow> (nat \<Rightarrow> 's \<Rightarrow> 's option) \<Rightarrow> 's \<Rightarrow> 's option" where
  "for_upto 0 body s = Some s"
| "for_upto (Suc n) body s = do { s' \<leftarrow> for_upto n body s; body n s' }"

subsection \<open>The decoder's structures\<close>

record VideoParameters =
  vid_active_sps :: seq_parameter_set_rbsp_t
  vid_active_subset_sps_num_views_minus1 :: "int option"
  vid_profile_idc :: int
  inp_dpb_plus :: "int \<times> int"
  vid_no_reference_picture :: "addr option"
  vid_width :: int
  vid_height :: int
  vid_width_cr :: int
  vid_height_cr :: int
  vid_iLumaPadY :: int
  vid_iLumaPadX :: int
  vid_iChromaPadY :: int
  vid_iChromaPadX :: int
  vid_separate_colour_plane_flag :: int
  vid_conceal_mode :: int
  vid_last_out_fs :: "addr option"
  vid_last_has_mmco_5 :: int

text \<open>
  \<open>dpb_p_Vid\<close> is the pointer \<open>p_Dpb->p_Vid\<close>: \<open>True\<close> when it points to the decoder's
  VideoParameters, \<open>False\<close> when it is null.
\<close>

record DecodedPictureBuffer =
  dpb_p_Vid :: bool
  dpb_fs :: "addr option"
  dpb_fs_ref :: "addr option"
  dpb_fs_ltref :: "addr option"
  dpb_fs_ilref :: "addr option"
  dpb_size :: u32
  dpb_used_size :: u32
  dpb_ref_frames_in_buffer :: u32
  dpb_ltref_frames_in_buffer :: u32
  dpb_last_output_poc :: int
  dpb_last_output_view_id :: int
  dpb_init_done :: int
  dpb_num_ref_frames :: int
  dpb_last_picture :: "addr option"

record state =
  st_vid :: VideoParameters
  st_dpb :: DecodedPictureBuffer
  st_heap :: heap
  st_stderr :: "string list"

subsection \<open>getDpbSize\<close>

text \<open>The first statement of \<open>getDpbSize\<close>: an unsigned product, stored in an \<open>int\<close>.\<close>

definition pic_size_mb :: "seq_parameter_set_rbsp_t \<Rightarrow> int" where
  "pic_size_mb active_sps =
     sint ((sps_pic_width_in_mbs_minus1 active_sps + 1)
           * (sps_pic_height_in_map_units_minus1 active_sps + 1)
           * (if sps_frame_mbs_only_flag active_sps \<noteq> 0 then 1 else 2 :: u32))"

text \<open>
  The \<open>switch\<close> over \<open>level_idc\<close>, for the cases that assign \<open>size\<close> and leave the switch.
  \<open>None\<close> is the \<open>default\<close> label. Case 0 returns from \<open>getDpbSize\<close> and is handled there.
\<close>

definition level_size :: "build_env \<Rightarrow> seq_parameter_set_rbsp_t \<Rightarrow> int option" where
  "level_size b active_sps =
     (let l = sps_level_idc active_sps in
      if l = 9 then Some 396
      else if l = 10 then Some 396
      else if l = 11 then
        (if \<not> is_FREXT_profile b (sps_profile_idc active_sps)
            \<and> sps_constrained_set3_flag active_sps = 1
         then Some 396 else Some 900)
      else if l = 12 then Some 2376
      else if l = 13 then Some 2376
      else if l = 20 then Some 2376
      else if l = 21 then Some 4752
      else if l = 22 then Some 8100
      else if l = 30 then Some 8100
      else if l = 31 then Some 18000
      else if l = 32 then Some 20480
      else if l = 40 then Some 32768
      else if l = 41 then Some 32768
      else if l = 42 then Some 34816
      else if l = 50 then Some 110400
      else if l = 51 then Some 184320
      else if l = 52 then Some 184320
      else if l = 60 \<or> l = 61 \<or> l = 62 then Some 696320
      else None)"

text \<open>
  \<open>getDpbSize\<close> returns the size and what stderr holds afterwards. Of \<open>p_Vid\<close> it reads the
  profile, and the number of views of the active subset parameter set (a pointer, \<open>None\<close>
  when null).
\<close>

definition getDpbSize ::
  "build_env \<Rightarrow> VideoParameters \<Rightarrow> seq_parameter_set_rbsp_t \<Rightarrow> string list
     \<Rightarrow> (int \<times> string list) option" where
  "getDpbSize b p_Vid active_sps stderr =
     (if sps_level_idc active_sps = 0 then Some (16, stderr)
      else do {
        let (size0, stderr1) =
              (case level_size b active_sps of
                 Some n \<Rightarrow> (n, stderr)
               | None \<Rightarrow> (0, error ''undefined level'' 500 stderr));
        size1 \<leftarrow> (if pic_size_mb active_sps = 0 then None
                  else Some (c_div size0 (pic_size_mb active_sps)));
        size2 \<leftarrow>
          (if MVC_EXTENSION_ENABLE b
              \<and> (vid_profile_idc p_Vid = MVC_HIGH \<or> vid_profile_idc p_Vid = STEREO_HIGH)
           then do {
             num_views_minus1 \<leftarrow> vid_active_subset_sps_num_views_minus1 p_Vid;
             let num_views = num_views_minus1 + 1;
             if num_views = 0 then None
             else Some (c_div (imin (2 * size1) (imax 1 (RoundLog2 b num_views) * 16))
                          num_views)
           }
           else Some (imin size1 16));
        if sps_vui_parameters_present_flag active_sps \<noteq> 0
           \<and> vui_bitstream_restriction_flag (sps_vui_seq_parameters active_sps) \<noteq> 0
        then do {
          let mdfb = sint (vui_max_dec_frame_buffering (sps_vui_seq_parameters active_sps));
          let stderr2 =
                (if mdfb > size2
                 then error ''max_dec_frame_buffering larger than MaxDpbSize'' 500 stderr1
                 else stderr1);
          let size_vui = imax 1 mdfb;
          Some (size_vui, stderr2)
        }
        else Some (size2, stderr1)
      })"


subsection \<open>Allocating and freeing pictures and frame stores\<close>

text \<open>What \<open>calloc\<close> returns: every field is zero, every pointer null.\<close>

definition zero_FrameStore :: FrameStore where
  "zero_FrameStore =
     \<lparr>f_is_used = 0, f_is_reference = 0, f_is_long_term = 0, f_is_orig_reference = 0,
      f_is_output = 0, f_frame = None, f_top_field = None, f_bottom_field = None,
      f_layer_id = 0, f_view_id = 0, f_inter_view_flag = (0, 0), f_anchor_pic_flag = (0, 0)\<rparr>"

definition zero_StorablePicture :: "build_env \<Rightarrow> StorablePicture" where
  "zero_StorablePicture b =
     \<lparr>s_structure = FRAME, s_poc = 0, s_top_poc = 0, s_bottom_poc = 0, s_frame_num = 0,
      s_pic_num = 0, s_long_term_pic_num = 0, s_long_term_frame_idx = 0, s_is_long_term = 0,
      s_used_for_reference = 0, s_is_output = 0, s_non_existing = 0,
      s_separate_colour_plane_flag = 0, s_max_slice_id = 0,
      s_size_x = 0, s_size_y = 0, s_size_x_cr = 0, s_size_y_cr = 0,
      s_size_x_m1 = 0, s_size_y_m1 = 0, s_size_x_cr_m1 = 0, s_size_y_cr_m1 = 0,
      s_coded_frame = 0, s_mb_aff_frame_flag = 0, s_PicSizeInMbs = 0,
      s_iLumaPadY = 0, s_iLumaPadX = 0, s_iChromaPadY = 0, s_iChromaPadX = 0,
      s_imgY = None, s_imgUV = None, s_mv_info = None,
      s_motion = \<lparr>mb_field = None\<rparr>,
      s_JVmv_info = replicate MAX_PLANE None,
      s_JVmotion = replicate MAX_PLANE \<lparr>mb_field = None\<rparr>,
      s_iLumaStride = 0, s_iChromaStride = 0,
      s_iLumaExpandedHeight = 0, s_iChromaExpandedHeight = 0,
      s_top_field = None, s_bottom_field = None, s_frame = None,
      s_dec_ref_pic_marking_buffer = None,
      s_seiHasTone_mapping = 0, s_tone_mapping_lut = None, s_view_id = 0,
      s_listX = replicate (MAX_NUM_SLICES b) (replicate 2 None)\<rparr>"

definition alloc_frame_store :: "heap \<Rightarrow> addr \<times> heap" where
  "alloc_frame_store h =
     c_calloc
       (FS (zero_FrameStore
              \<lparr>f_is_used := 0, f_is_reference := 0, f_is_long_term := 0,
               f_is_orig_reference := 0, f_is_output := 0,
               f_frame := None, f_top_field := None, f_bottom_field := None\<rparr>))
       h"

text \<open>
  \<open>alloc_pic_motion\<close>: the number of bytes is the product of two \<open>int\<close>s. It is converted to
  \<open>size_t\<close> for \<open>calloc\<close>; for a negative product \<open>calloc\<close> returns null and \<open>no_mem_exit\<close> is
  called.
\<close>

definition alloc_pic_motion ::
  "PicMotionParamsOld \<Rightarrow> int \<Rightarrow> int \<Rightarrow> PicMotionParamsOld option" where
  "alloc_pic_motion motion size_y size_x = do {
     n \<leftarrow> c_mul size_y size_x;
     if n < 0 then no_mem_exit ''alloc_storable_picture: motion->mb_field''
     else Some (motion\<lparr>mb_field := Some (Bytes n)\<rparr>)
   }"

text \<open>
  Modelled from the spec: the allocators of memalloc.c, see \<open>buffer\<close>. Each returns the
  pointer it stores through its first argument.
\<close>

definition get_mem2Dpel_pad :: "int \<Rightarrow> int \<Rightarrow> int \<Rightarrow> int \<Rightarrow> buffer option" where
  "get_mem2Dpel_pad dim0 dim1 iPadY iPadX = Some (Mem2Dpel_pad dim0 dim1 iPadY iPadX)"

definition get_mem3Dpel_pad :: "int \<Rightarrow> int \<Rightarrow> int \<Rightarrow> int \<Rightarrow> int \<Rightarrow> buffer option" where
  "get_mem3Dpel_pad dim0 dim1 dim2 iPadY iPadX = Some (Mem3Dpel_pad dim0 dim1 dim2 iPadY iPadX)"

definition get_mem2Dmp :: "int \<Rightarrow> int \<Rightarrow> buffer option" where
  "get_mem2Dmp dim0 dim1 = Some (Mem2Dmp dim0 dim1)"

text \<open>\<open>x >> BLOCK_SHIFT\<close> on an \<open>int\<close>: the arithmetic shift.\<close>

definition shr :: "int \<Rightarrow> nat \<Rightarrow> int" where
  "shr x n = x div 2 ^ n"

text \<open>
  The two loops of \<open>alloc_storable_picture\<close>: over the colour planes, and over the slices
  and the two lists of each.
\<close>

definition alloc_JV_planes :: "int \<Rightarrow> int \<Rightarrow> StorablePicture \<Rightarrow> StorablePicture option" where
  "alloc_JV_planes dim0 dim1 s0 =
     for_upto MAX_PLANE
       (\<lambda>nplane s. do {
          let s = s\<lparr>s_JVmv_info := (s_JVmv_info s)[nplane := get_mem2Dmp dim0 dim1]\<rparr>;
          motion \<leftarrow> alloc_pic_motion (s_JVmotion s ! nplane) dim0 dim1;
          Some (s\<lparr>s_JVmotion := (s_JVmotion s)[nplane := motion]\<rparr>)
        })
       s0"

definition alloc_listX :: "build_env \<Rightarrow> StorablePicture \<Rightarrow> StorablePicture" where
  "alloc_listX b s0 =
     fold
       (\<lambda>j s.
          fold
            (\<lambda>i s.
               s\<lparr>s_listX :=
                   (s_listX s)[j := (s_listX s ! j)[i := Some (Pointers MAX_LIST_SIZE)]]\<rparr>)
            [0..<2] s)
       [0..<MAX_NUM_SLICES b] s0"

text \<open>
  \<open>alloc_storable_picture\<close>. The picture is built field by field, in the order of the
  source, and put into the cell that \<open>calloc\<close> returns. Every sum, difference and product
  of \<open>int\<close>s must be an \<open>int\<close>.
\<close>

definition alloc_storable_picture ::
  "build_env \<Rightarrow> VideoParameters \<Rightarrow> PictureStructure \<Rightarrow> int \<Rightarrow> int \<Rightarrow> int \<Rightarrow> int \<Rightarrow> int
     \<Rightarrow> heap \<Rightarrow> (addr \<times> heap) option" where
  "alloc_storable_picture b p_Vid structure size_x size_y0 size_x_cr size_y_cr0 is_output h = do {
     let active_sps = vid_active_sps p_Vid;
     let s = zero_StorablePicture b;
     let size_y = (if structure \<noteq> FRAME then c_div size_y0 2 else size_y0);
     let size_y_cr = (if structure \<noteq> FRAME then c_div size_y_cr0 2 else size_y_cr0);
     size_xy \<leftarrow> c_mul size_x size_y;
     let s = s\<lparr>s_PicSizeInMbs := c_div size_xy 256, s_imgUV := None\<rparr>;
     let s = s\<lparr>s_imgY :=
                 get_mem2Dpel_pad size_y size_x (vid_iLumaPadY p_Vid) (vid_iLumaPadX p_Vid)\<rparr>;
     padX2 \<leftarrow> c_mul 2 (vid_iLumaPadX p_Vid);
     iLumaStride \<leftarrow> c_add size_x padX2;
     padY2 \<leftarrow> c_mul 2 (vid_iLumaPadY p_Vid);
     iLumaExpandedHeight \<leftarrow> c_add size_y padY2;
     let s = s\<lparr>s_iLumaStride := iLumaStride, s_iLumaExpandedHeight := iLumaExpandedHeight\<rparr>;
     let s = (if sps_chroma_format_idc active_sps \<noteq> YUV400 b
              then s\<lparr>s_imgUV :=
                        get_mem3Dpel_pad 2 size_y_cr size_x_cr
                          (vid_iChromaPadY p_Vid) (vid_iChromaPadX p_Vid)\<rparr>
              else s);
     padX2_cr \<leftarrow> c_mul 2 (vid_iChromaPadX p_Vid);
     iChromaStride \<leftarrow> c_add size_x_cr padX2_cr;
     padY2_cr \<leftarrow> c_mul 2 (vid_iChromaPadY p_Vid);
     iChromaExpandedHeight \<leftarrow> c_add size_y_cr padY2_cr;
     let s = s\<lparr>s_iChromaStride := iChromaStride,
               s_iChromaExpandedHeight := iChromaExpandedHeight,
               s_iLumaPadY := vid_iLumaPadY p_Vid,
               s_iLumaPadX := vid_iLumaPadX p_Vid,
               s_iChromaPadY := vid_iChromaPadY p_Vid,
               s_iChromaPadX := vid_iChromaPadX p_Vid,
               s_separate_colour_plane_flag := vid_separate_colour_plane_flag p_Vid\<rparr>;
     let s = s\<lparr>s_mv_info := get_mem2Dmp (shr size_y BLOCK_SHIFT) (shr size_x BLOCK_SHIFT)\<rparr>;
     motion \<leftarrow> alloc_pic_motion (s_motion s) (shr size_y BLOCK_SHIFT) (shr size_x BLOCK_SHIFT);
     let s = s\<lparr>s_motion := motion\<rparr>;
     s \<leftarrow> (if vid_separate_colour_plane_flag p_Vid \<noteq> 0
           then alloc_JV_planes (shr size_y BLOCK_SHIFT) (shr size_x BLOCK_SHIFT) s
           else Some s);
     let s = s\<lparr>s_pic_num := 0, s_frame_num := 0, s_long_term_frame_idx := 0,
               s_long_term_pic_num := 0, s_used_for_reference := 0, s_is_long_term := 0,
               s_non_existing := 0, s_is_output := 0, s_max_slice_id := 0\<rparr>;
     let s = (if MVC_EXTENSION_ENABLE b then s\<lparr>s_view_id := - 1\<rparr> else s);
     size_x_m1 \<leftarrow> c_sub size_x 1;
     size_y_m1 \<leftarrow> c_sub size_y 1;
     size_x_cr_m1 \<leftarrow> c_sub size_x_cr 1;
     size_y_cr_m1 \<leftarrow> c_sub size_y_cr 1;
     let s = s\<lparr>s_structure := structure,
               s_size_x := size_x, s_size_y := size_y,
               s_size_x_cr := size_x_cr, s_size_y_cr := size_y_cr,
               s_size_x_m1 := size_x_m1, s_size_y_m1 := size_y_m1,
               s_size_x_cr_m1 := size_x_cr_m1, s_size_y_cr_m1 := size_y_cr_m1\<rparr>;
     let s = s\<lparr>s_top_field := vid_no_reference_picture p_Vid,
               s_bottom_field := vid_no_reference_picture p_Vid,
               s_frame := vid_no_reference_picture p_Vid\<rparr>;
     let s = s\<lparr>s_dec_ref_pic_marking_buffer := None,
               s_coded_frame := 0, s_mb_aff_frame_flag := 0,
               s_top_poc := 0, s_bottom_poc := 0, s_poc := 0, s_seiHasTone_mapping := 0\<rparr>;
     let s = (if sps_frame_mbs_only_flag (vid_active_sps p_Vid) = 0 \<and> structure \<noteq> FRAME
              then alloc_listX b s
              else s);
     Some (c_calloc (SP s) h)
   }"

definition free_pic_motion :: "PicMotionParamsOld \<Rightarrow> PicMotionParamsOld" where
  "free_pic_motion motion = (if mb_field motion \<noteq> None then motion\<lparr>mb_field := None\<rparr> else motion)"

text \<open>The two loops of \<open>free_storable_picture\<close>.\<close>

definition free_JV_planes :: "StorablePicture \<Rightarrow> StorablePicture" where
  "free_JV_planes s0 =
     fold
       (\<lambda>nplane s.
          let s = (if s_JVmv_info s ! nplane \<noteq> None
                   then s\<lparr>s_JVmv_info := (s_JVmv_info s)[nplane := None]\<rparr>
                   else s)
          in s\<lparr>s_JVmotion := (s_JVmotion s)[nplane := free_pic_motion (s_JVmotion s ! nplane)]\<rparr>)
       [0..<MAX_PLANE] s0"

definition free_listX :: "build_env \<Rightarrow> StorablePicture \<Rightarrow> StorablePicture" where
  "free_listX b s0 =
     fold
       (\<lambda>j s.
          fold
            (\<lambda>i s.
               if s_listX s ! j ! i \<noteq> None
               then s\<lparr>s_listX := (s_listX s)[j := (s_listX s ! j)[i := None]]\<rparr>
               else s)
            [0..<2] s)
       [0..<MAX_NUM_SLICES b] s0"

text \<open>
  \<open>free_storable_picture\<close>: nothing happens for a null pointer; otherwise the planes and
  arrays of the picture are released, then the picture itself.
\<close>

definition free_storable_picture :: "build_env \<Rightarrow> addr option \<Rightarrow> heap \<Rightarrow> heap option" where
  "free_storable_picture b p h =
     (case p of
        None \<Rightarrow> Some h
      | Some a \<Rightarrow> do {
          s \<leftarrow> read_sp h a;
          let s = (if s_mv_info s \<noteq> None then s\<lparr>s_mv_info := None\<rparr> else s);
          let s = s\<lparr>s_motion := free_pic_motion (s_motion s)\<rparr>;
          let s = (if s_separate_colour_plane_flag s \<noteq> 0 then free_JV_planes s else s);
          let s = (if s_imgY s \<noteq> None then s\<lparr>s_imgY := None\<rparr> else s);
          let s = (if s_imgUV s \<noteq> None then s\<lparr>s_imgUV := None\<rparr> else s);
          let s = (if s_seiHasTone_mapping s \<noteq> 0 then s\<lparr>s_tone_mapping_lut := None\<rparr> else s);
          let s = free_listX b s;
          h1 \<leftarrow> write_sp a s h;
          c_free a h1
        })"

text \<open>
  One of the three blocks of \<open>free_frame_store\<close>: \<open>if (f->x) { free_storable_picture(f->x);
  f->x = NULL; }\<close>, for the frame store at address \<open>a\<close>.
\<close>

definition free_attached ::
  "build_env \<Rightarrow> addr \<Rightarrow> (FrameStore \<Rightarrow> addr option) \<Rightarrow> (FrameStore \<Rightarrow> FrameStore) \<Rightarrow> heap
     \<Rightarrow> heap option" where
  "free_attached b a field clear h = do {
     x \<leftarrow> read_fs h a;
     if field x \<noteq> None
     then do {
       h1 \<leftarrow> free_storable_picture b (field x) h;
       x1 \<leftarrow> read_fs h1 a;
       write_fs a (clear x1) h1
     }
     else Some h
   }"

definition free_frame_store :: "build_env \<Rightarrow> addr option \<Rightarrow> heap \<Rightarrow> heap option" where
  "free_frame_store b f h =
     (case f of
        None \<Rightarrow> Some h
      | Some a \<Rightarrow> do {
          h1 \<leftarrow> free_attached b a f_frame (\<lambda>x. x\<lparr>f_frame := None\<rparr>) h;
          h2 \<leftarrow> free_attached b a f_top_field (\<lambda>x. x\<lparr>f_top_field := None\<rparr>) h1;
          h3 \<leftarrow> free_attached b a f_bottom_field (\<lambda>x. x\<lparr>f_bottom_field := None\<rparr>) h2;
          c_free a h3
        })"

subsection \<open>free_dpb and init_dpb\<close>

text \<open>The loop of \<open>free_dpb\<close> over the pool: \<open>free_frame_store(p_Dpb->fs[i])\<close>.\<close>

definition free_dpb_slot :: "build_env \<Rightarrow> addr option \<Rightarrow> nat \<Rightarrow> heap \<Rightarrow> heap option" where
  "free_dpb_slot b arr i h = do { f \<leftarrow> read_pa h arr i; free_frame_store b f h }"

text \<open>
  The two kinds of block in \<open>free_dpb\<close>: \<open>if (arr) { for (i = 0; i < n; i++)
  free_frame_store(arr[i]); free(arr); }\<close> and \<open>if (arr) free(arr);\<close>.
\<close>

definition free_slots_array :: "build_env \<Rightarrow> addr option \<Rightarrow> nat \<Rightarrow> heap \<Rightarrow> heap option" where
  "free_slots_array b arr n h =
     (case arr of
        None \<Rightarrow> Some h
      | Some a \<Rightarrow> do { h1 \<leftarrow> for_upto n (free_dpb_slot b arr) h; c_free a h1 })"

definition free_array :: "addr option \<Rightarrow> heap \<Rightarrow> heap option" where
  "free_array arr h = (case arr of None \<Rightarrow> Some h | Some a \<Rightarrow> c_free a h)"

text \<open>
  \<open>free_dpb\<close>. The pointer \<open>p_Vid\<close> is read from \<open>p_Dpb->p_Vid\<close> at the start and followed
  after the arrays are done, for \<open>conceal_mode\<close>, \<open>last_out_fs\<close> and \<open>no_reference_picture\<close>;
  there it must not be null. Of the four arrays only \<open>fs\<close> and \<open>fs_ilref\<close> are set to null
  after \<open>free\<close>, and \<open>last_out_fs\<close> keeps its value too.
\<close>

definition free_dpb :: "build_env \<Rightarrow> state \<Rightarrow> state option" where
  "free_dpb b st = do {
     let p_Vid = (if dpb_p_Vid (st_dpb st) then Some (st_vid st) else None);
     let dpb = st_dpb st;
     h \<leftarrow> free_slots_array b (dpb_fs dpb) (unat (dpb_size dpb)) (st_heap st);
     let dpb = dpb\<lparr>dpb_fs := None\<rparr>;
     h \<leftarrow> free_array (dpb_fs_ref dpb) h;
     h \<leftarrow> free_array (dpb_fs_ltref dpb) h;
     (dpb, h) \<leftarrow>
       (if MVC_EXTENSION_ENABLE b
        then do {
          h \<leftarrow> free_slots_array b (dpb_fs_ilref dpb) 1 h;
          Some (dpb\<lparr>dpb_fs_ilref := None, dpb_last_output_view_id := - 1\<rparr>, h)
        }
        else Some (dpb, h));
     let dpb = dpb\<lparr>dpb_last_output_poc := INT_MIN, dpb_init_done := 0\<rparr>;
     vid \<leftarrow> p_Vid;
     h \<leftarrow>
       (if vid_conceal_mode vid \<noteq> 0 \<or> vid_last_out_fs vid \<noteq> None
        then free_frame_store b (vid_last_out_fs vid) h
        else Some h);
     (vid, h) \<leftarrow>
       (case vid_no_reference_picture vid of
          None \<Rightarrow> Some (vid, h)
        | Some p \<Rightarrow> do {
            h \<leftarrow> free_storable_picture b (Some p) h;
            Some (vid\<lparr>vid_no_reference_picture := None\<rparr>, h)
          });
     Some (st\<lparr>st_vid := vid, st_dpb := dpb, st_heap := h\<rparr>)
   }"

text \<open>\<open>arr[i]->field = v\<close>: the pointer is read from the array and followed.\<close>

definition update_slot ::
  "addr option \<Rightarrow> nat \<Rightarrow> (FrameStore \<Rightarrow> FrameStore) \<Rightarrow> heap \<Rightarrow> heap option" where
  "update_slot arr i upd h = do {
     f \<leftarrow> read_pa h arr i;
     a \<leftarrow> f;
     x \<leftarrow> read_fs h a;
     write_fs a (upd x) h
   }"

text \<open>The body of the loop of \<open>init_dpb\<close> over the pool.\<close>

definition init_dpb_slot ::
  "build_env \<Rightarrow> addr option \<Rightarrow> addr option \<Rightarrow> addr option \<Rightarrow> nat \<Rightarrow> heap \<Rightarrow> heap option" where
  "init_dpb_slot b fs fs_ref fs_ltref i h = do {
     let (f, h1) = alloc_frame_store h;
     h2 \<leftarrow> write_pa fs i (Some f) h1;
     h3 \<leftarrow> write_pa fs_ref i None h2;
     h4 \<leftarrow> write_pa fs_ltref i None h3;
     h5 \<leftarrow> update_slot fs i (\<lambda>x. x\<lparr>f_layer_id := MVC_INIT_VIEW_ID b\<rparr>) h4;
     if MVC_EXTENSION_ENABLE b
     then do {
       h6 \<leftarrow> update_slot fs i (\<lambda>x. x\<lparr>f_view_id := MVC_INIT_VIEW_ID b\<rparr>) h5;
       h7 \<leftarrow> update_slot fs i (\<lambda>x. x\<lparr>f_inter_view_flag := (0, 0)\<rparr>) h6;
       update_slot fs i (\<lambda>x. x\<lparr>f_anchor_pic_flag := (0, 0)\<rparr>) h7
     }
     else Some h5
   }"

text \<open>
  The blocks of \<open>init_dpb\<close> that allocate. First the arrays and the pool: three arrays of
  \<open>size\<close> pointers (and \<open>fs_ilref\<close> of one pointer when \<open>MVC_EXTENSION_ENABLE\<close> is
  set), the loop over the slots, and the frame store for inter-layer reference.
\<close>

definition init_dpb_pool ::
  "build_env \<Rightarrow> int \<Rightarrow> DecodedPictureBuffer \<Rightarrow> heap \<Rightarrow> (DecodedPictureBuffer \<times> heap) option" where
  "init_dpb_pool b type dpb0 h0 = do {
     let (fs, h) = c_calloc (PA (replicate (unat (dpb_size dpb0)) None)) h0;
     let dpb = dpb0\<lparr>dpb_fs := Some fs\<rparr>;
     let (fs_ref, h) = c_calloc (PA (replicate (unat (dpb_size dpb)) None)) h;
     let dpb = dpb\<lparr>dpb_fs_ref := Some fs_ref\<rparr>;
     let (fs_ltref, h) = c_calloc (PA (replicate (unat (dpb_size dpb)) None)) h;
     let dpb = dpb\<lparr>dpb_fs_ltref := Some fs_ltref\<rparr>;
     let (dpb, h) =
           (if MVC_EXTENSION_ENABLE b
            then (let (fs_ilref, h) = c_calloc (PA (replicate 1 None)) h
                  in (dpb\<lparr>dpb_fs_ilref := Some fs_ilref\<rparr>, h))
            else (dpb, h));
     h \<leftarrow> for_upto (unat (dpb_size dpb))
            (init_dpb_slot b (dpb_fs dpb) (dpb_fs_ref dpb) (dpb_fs_ltref dpb)) h;
     h \<leftarrow>
       (if MVC_EXTENSION_ENABLE b
        then
          (if type = 2
           then do {
             let (f, h) = alloc_frame_store h;
             h \<leftarrow> write_pa (dpb_fs_ilref dpb) 0 (Some f) h;
             h \<leftarrow> update_slot (dpb_fs_ilref dpb) 0 (\<lambda>x. x\<lparr>f_view_id := MVC_INIT_VIEW_ID b\<rparr>) h;
             h \<leftarrow> update_slot (dpb_fs_ilref dpb) 0 (\<lambda>x. x\<lparr>f_inter_view_flag := (0, 0)\<rparr>) h;
             update_slot (dpb_fs_ilref dpb) 0 (\<lambda>x. x\<lparr>f_anchor_pic_flag := (0, 0)\<rparr>) h
           }
           else write_pa (dpb_fs_ilref dpb) 0 None h)
        else Some h);
     Some (dpb, h)
   }"

text \<open>
  The picture that stands for a missing reference: allocated when there is none yet, and
  made its own frame, top field and bottom field.
\<close>

definition init_no_reference_picture ::
  "build_env \<Rightarrow> VideoParameters \<Rightarrow> heap \<Rightarrow> (VideoParameters \<times> heap) option" where
  "init_no_reference_picture b vid0 h0 =
     (case vid_no_reference_picture vid0 of
        Some p \<Rightarrow> Some (vid0, h0)
      | None \<Rightarrow> do {
          (p, h) \<leftarrow> alloc_storable_picture b vid0 FRAME (vid_width vid0) (vid_height vid0)
                      (vid_width_cr vid0) (vid_height_cr vid0) 1 h0;
          let vid = vid0\<lparr>vid_no_reference_picture := Some p\<rparr>;
          s \<leftarrow> read_sp h p;
          h \<leftarrow> write_sp p (s\<lparr>s_top_field := vid_no_reference_picture vid\<rparr>) h;
          s \<leftarrow> read_sp h p;
          h \<leftarrow> write_sp p (s\<lparr>s_bottom_field := vid_no_reference_picture vid\<rparr>) h;
          s \<leftarrow> read_sp h p;
          h \<leftarrow> write_sp p (s\<lparr>s_frame := vid_no_reference_picture vid\<rparr>) h;
          Some (vid, h)
        })"

text \<open>The frame store for picture error concealment, at the end of \<open>init_dpb\<close>.\<close>

definition init_last_out_fs :: "VideoParameters \<Rightarrow> heap \<Rightarrow> VideoParameters \<times> heap" where
  "init_last_out_fs vid h =
     (if vid_conceal_mode vid \<noteq> 0 \<and> vid_last_out_fs vid = None
      then (let (f, h) = alloc_frame_store h in (vid\<lparr>vid_last_out_fs := Some f\<rparr>, h))
      else (vid, h))"

text \<open>
  \<open>init_dpb\<close>. \<open>dpb_plus\<close> is \<open>p_Vid->p_Inp->dpb_plus[type==2? 1: 0]\<close>. The sum of two
  \<open>int\<close>s that becomes \<open>p_Dpb->size\<close> must be an \<open>int\<close>; it is converted to \<open>unsigned\<close>. The comparisons with \<open>num_ref_frames\<close> are unsigned, on
  \<open>active_sps->max_dec_frame_buffering\<close> when \<open>MVC_EXTENSION_ENABLE\<close> is set and on
  \<open>p_Dpb->size\<close> otherwise.
\<close>

definition dpb_plus :: "VideoParameters \<Rightarrow> int \<Rightarrow> int" where
  "dpb_plus p_Vid type = (if type = 2 then snd (inp_dpb_plus p_Vid) else fst (inp_dpb_plus p_Vid))"

definition too_small_message :: string where
  "too_small_message =
     ''DPB size at specified level is smaller than the specified number of ''
     @ ''reference frames. This is not allowed.'' @ [CHR 0x0A]"

definition dpb_size_too_small ::
  "build_env \<Rightarrow> seq_parameter_set_rbsp_t \<Rightarrow> DecodedPictureBuffer \<Rightarrow> bool" where
  "dpb_size_too_small b active_sps dpb =
     (if MVC_EXTENSION_ENABLE b
      then (word_of_int (sps_max_dec_frame_buffering active_sps) :: u32)
             < sps_num_ref_frames active_sps
      else dpb_size dpb < sps_num_ref_frames active_sps)"

definition init_dpb :: "build_env \<Rightarrow> state \<Rightarrow> int \<Rightarrow> state option" where
  "init_dpb b st0 type = do {
     let active_sps = vid_active_sps (st_vid st0);
     let st1 = st0\<lparr>st_dpb := (st_dpb st0)\<lparr>dpb_p_Vid := True\<rparr>\<rparr>;
     st2 \<leftarrow> (if dpb_init_done (st_dpb st1) \<noteq> 0 then free_dpb b st1 else Some st1);
     (n, stderr1) \<leftarrow> getDpbSize b (st_vid st2) active_sps (st_stderr st2);
     let plus = dpb_plus (st_vid st2) type;
     sum \<leftarrow> (if INT_MIN \<le> n + plus \<and> n + plus \<le> INT_MAX then Some (n + plus) else None);
     let dpb = (st_dpb st2)\<lparr>dpb_size := word_of_int sum,
                             dpb_num_ref_frames := sint (sps_num_ref_frames active_sps)\<rparr>;
     let stderr2 =
           (if dpb_size_too_small b active_sps dpb
            then error too_small_message 1000 stderr1
            else stderr1);
     let dpb = dpb\<lparr>dpb_used_size := 0, dpb_last_picture := None,
                    dpb_ref_frames_in_buffer := 0, dpb_ltref_frames_in_buffer := 0\<rparr>;
     (dpb, h) \<leftarrow> init_dpb_pool b type dpb (st_heap st2);
     (vid, h) \<leftarrow> init_no_reference_picture b (st_vid st2) h;
     let dpb = dpb\<lparr>dpb_last_output_poc := INT_MIN\<rparr>;
     let dpb = (if MVC_EXTENSION_ENABLE b then dpb\<lparr>dpb_last_output_view_id := - 1\<rparr> else dpb);
     let vid = vid\<lparr>vid_last_has_mmco_5 := 0\<rparr>;
     let dpb = dpb\<lparr>dpb_init_done := 1\<rparr>;
     let (vid, h) = init_last_out_fs vid h;
     Some (st2\<lparr>st_vid := vid, st_dpb := dpb, st_heap := h, st_stderr := stderr2\<rparr>)
   }"

subsection \<open>Words of the specification and example inputs\<close>

text \<open>A single-view stream: the branch of \<open>getDpbSize\<close> for the multiview profiles is not taken.\<close>

definition single_view :: "build_env \<Rightarrow> VideoParameters \<Rightarrow> bool" where
  "single_view b p_Vid =
     (\<not> (MVC_EXTENSION_ENABLE b
         \<and> (vid_profile_idc p_Vid = MVC_HIGH \<or> vid_profile_idc p_Vid = STEREO_HIGH)))"

text \<open>The test of \<open>getDpbSize\<close> for a VUI that restricts the buffering.\<close>

definition vui_override :: "seq_parameter_set_rbsp_t \<Rightarrow> bool" where
  "vui_override active_sps =
     (sps_vui_parameters_present_flag active_sps \<noteq> 0
      \<and> vui_bitstream_restriction_flag (sps_vui_seq_parameters active_sps) \<noteq> 0)"

definition with_vui :: "seq_parameter_set_rbsp_t \<Rightarrow> u32 \<Rightarrow> seq_parameter_set_rbsp_t" where
  "with_vui active_sps n =
     active_sps\<lparr>sps_vui_parameters_present_flag := 1,
                sps_vui_seq_parameters :=
                  \<lparr>vui_bitstream_restriction_flag = 1, vui_max_dec_frame_buffering = n\<rparr>\<rparr>"

definition without_vui :: "seq_parameter_set_rbsp_t \<Rightarrow> seq_parameter_set_rbsp_t" where
  "without_vui active_sps = active_sps\<lparr>sps_vui_parameters_present_flag := 0\<rparr>"

text \<open>
  The size of a picture in macroblocks, as a natural number: width in macroblocks times
  height in map units, doubled for field coding. The width is one more than
  \<open>pic_width_in_mbs_minus1\<close>, the height one more than \<open>pic_height_in_map_units_minus1\<close>.
\<close>

definition spec_pic_size :: "nat \<Rightarrow> nat \<Rightarrow> bool \<Rightarrow> nat" where
  "spec_pic_size width_in_mbs height_in_map_units frame_mbs_only =
     width_in_mbs * height_in_map_units * (if frame_mbs_only then 1 else 2)"

definition picture_size_in_mbs :: "seq_parameter_set_rbsp_t \<Rightarrow> nat" where
  "picture_size_in_mbs active_sps =
     spec_pic_size (unat (sps_pic_width_in_mbs_minus1 active_sps) + 1)
       (unat (sps_pic_height_in_map_units_minus1 active_sps) + 1)
       (sps_frame_mbs_only_flag active_sps \<noteq> 0)"

text \<open>
  A level that the \<open>switch\<close> of \<open>getDpbSize\<close> has a case for, and a valid pair of level and
  picture size: the level is such a one and the picture, in macroblocks, is not larger
  than the budget of the level (level 0 has no budget and allows every size).
\<close>

definition recognized_level :: "build_env \<Rightarrow> seq_parameter_set_rbsp_t \<Rightarrow> bool" where
  "recognized_level b active_sps =
     (case level_size b active_sps of Some n \<Rightarrow> True | None \<Rightarrow> sps_level_idc active_sps = 0)"

definition valid_level_picture_size :: "build_env \<Rightarrow> seq_parameter_set_rbsp_t \<Rightarrow> bool" where
  "valid_level_picture_size b active_sps =
     (case level_size b active_sps of
        Some n \<Rightarrow> int (picture_size_in_mbs active_sps) \<le> n
      | None \<Rightarrow> sps_level_idc active_sps = 0)"

text \<open>The same parameter set with another picture size.\<close>

definition with_picture_size ::
  "seq_parameter_set_rbsp_t \<Rightarrow> u32 \<Rightarrow> u32 \<Rightarrow> int \<Rightarrow> seq_parameter_set_rbsp_t" where
  "with_picture_size active_sps w h f =
     active_sps\<lparr>sps_pic_width_in_mbs_minus1 := w, sps_pic_height_in_map_units_minus1 := h,
                sps_frame_mbs_only_flag := f\<rparr>"

text \<open>
  The capacity in the words of the specification, on natural numbers: the budget is
  divided by the picture size, rounding down, and the quotient is clipped to 16.
\<close>

definition spec_capacity :: "nat \<Rightarrow> nat \<Rightarrow> nat" where
  "spec_capacity budget pic_size = min 16 (budget div pic_size)"

text \<open>
  What \<open>free_dpb\<close> is responsible for. \<open>release\<close> takes addresses out of the heap. A frame
  store owns the pictures attached to it, an array of slots owns the frame stores in its
  first \<open>n\<close> slots, and the buffer owns its four arrays, the frame store kept for
  concealment and the picture that stands for a missing reference. A pointer is valid
  when it is null or what it points to is there, of the right kind and itself valid.
\<close>

definition release :: "addr list \<Rightarrow> heap \<Rightarrow> heap" where
  "release as h = h\<lparr>cells := (\<lambda>a. if a \<in> set as then None else cells h a)\<rparr>"

definition opt_addr :: "addr option \<Rightarrow> addr list" where
  "opt_addr p = (case p of None \<Rightarrow> [] | Some a \<Rightarrow> [a])"

definition attached :: "FrameStore \<Rightarrow> addr list" where
  "attached x = opt_addr (f_frame x) @ opt_addr (f_top_field x) @ opt_addr (f_bottom_field x)"

definition is_picture :: "heap \<Rightarrow> addr \<Rightarrow> bool" where
  "is_picture h p = (case cells h p of Some (SP s) \<Rightarrow> True | _ \<Rightarrow> False)"

definition allocated :: "heap \<Rightarrow> addr option \<Rightarrow> bool" where
  "allocated h p = (case p of None \<Rightarrow> True | Some a \<Rightarrow> cells h a \<noteq> None)"

definition owned_fs :: "heap \<Rightarrow> addr option \<Rightarrow> addr list" where
  "owned_fs h f =
     (case f of
        None \<Rightarrow> []
      | Some a \<Rightarrow> (case cells h a of Some (FS x) \<Rightarrow> attached x @ [a] | _ \<Rightarrow> [a]))"

definition valid_fs :: "heap \<Rightarrow> addr option \<Rightarrow> bool" where
  "valid_fs h f =
     (case f of
        None \<Rightarrow> True
      | Some a \<Rightarrow>
          (case cells h a of
             Some (FS x) \<Rightarrow> list_all (is_picture h) (attached x) \<and> distinct (attached x)
           | _ \<Rightarrow> False))"

definition array_slots :: "heap \<Rightarrow> addr option \<Rightarrow> nat \<Rightarrow> addr option list" where
  "array_slots h arr n =
     (case arr of
        None \<Rightarrow> []
      | Some a \<Rightarrow> (case cells h a of Some (PA xs) \<Rightarrow> take n xs | _ \<Rightarrow> []))"

definition array_owned :: "heap \<Rightarrow> addr option \<Rightarrow> nat \<Rightarrow> addr list" where
  "array_owned h arr n = concat (map (owned_fs h) (array_slots h arr n)) @ opt_addr arr"

definition valid_array :: "heap \<Rightarrow> addr option \<Rightarrow> nat \<Rightarrow> bool" where
  "valid_array h arr n =
     (case arr of
        None \<Rightarrow> True
      | Some a \<Rightarrow>
          (case cells h a of
             Some (PA xs) \<Rightarrow> n \<le> length xs \<and> list_all (valid_fs h) (take n xs)
           | _ \<Rightarrow> False))"

definition dpb_owned :: "build_env \<Rightarrow> state \<Rightarrow> addr list" where
  "dpb_owned b st =
     array_owned (st_heap st) (dpb_fs (st_dpb st)) (unat (dpb_size (st_dpb st)))
     @ opt_addr (dpb_fs_ref (st_dpb st))
     @ opt_addr (dpb_fs_ltref (st_dpb st))
     @ (if MVC_EXTENSION_ENABLE b then array_owned (st_heap st) (dpb_fs_ilref (st_dpb st)) 1
        else [])
     @ owned_fs (st_heap st) (vid_last_out_fs (st_vid st))
     @ opt_addr (vid_no_reference_picture (st_vid st))"

definition dpb_valid :: "build_env \<Rightarrow> state \<Rightarrow> bool" where
  "dpb_valid b st =
     (dpb_p_Vid (st_dpb st)
      \<and> valid_array (st_heap st) (dpb_fs (st_dpb st)) (unat (dpb_size (st_dpb st)))
      \<and> allocated (st_heap st) (dpb_fs_ref (st_dpb st))
      \<and> allocated (st_heap st) (dpb_fs_ltref (st_dpb st))
      \<and> (if MVC_EXTENSION_ENABLE b then valid_array (st_heap st) (dpb_fs_ilref (st_dpb st)) 1
         else True)
      \<and> valid_fs (st_heap st) (vid_last_out_fs (st_vid st))
      \<and> list_all (is_picture (st_heap st)) (opt_addr (vid_no_reference_picture (st_vid st)))
      \<and> distinct (dpb_owned b st))"

text \<open>The state that \<open>free_dpb\<close> leaves.\<close>

definition after_free_dpb :: "build_env \<Rightarrow> state \<Rightarrow> state" where
  "after_free_dpb b st =
     st\<lparr>st_vid := (st_vid st)\<lparr>vid_no_reference_picture := None\<rparr>,
        st_dpb :=
          (if MVC_EXTENSION_ENABLE b
           then (st_dpb st)\<lparr>dpb_fs := None, dpb_fs_ilref := None, dpb_last_output_view_id := - 1,
                            dpb_last_output_poc := INT_MIN, dpb_init_done := 0\<rparr>
           else (st_dpb st)\<lparr>dpb_fs := None, dpb_last_output_poc := INT_MIN,
                            dpb_init_done := 0\<rparr>),
        st_heap := release (dpb_owned b st) (st_heap st)\<rparr>"

text \<open>
  What \<open>init_dpb\<close> leaves in the pool. A slot is a frame store as \<open>alloc_frame_store\<close>
  returns it, with the view identifiers that the loop of \<open>init_dpb\<close> sets. After \<open>m\<close> turns
  of the loop the array \<open>fs\<close> holds the addresses of \<open>m\<close> new frame stores, one after the
  other from the address \<open>k\<close>, and null pointers behind them.
\<close>

definition init_FrameStore :: "build_env \<Rightarrow> FrameStore" where
  "init_FrameStore b =
     (if MVC_EXTENSION_ENABLE b
      then zero_FrameStore\<lparr>f_layer_id := MVC_INIT_VIEW_ID b, f_view_id := MVC_INIT_VIEW_ID b\<rparr>
      else zero_FrameStore\<lparr>f_layer_id := MVC_INIT_VIEW_ID b\<rparr>)"

definition pool_slots :: "addr \<Rightarrow> nat \<Rightarrow> nat \<Rightarrow> addr option list" where
  "pool_slots k m n = map (\<lambda>i. Some (k + i)) [0..<m] @ replicate (n - m) None"

definition pool_heap :: "build_env \<Rightarrow> heap \<Rightarrow> addr \<Rightarrow> nat \<Rightarrow> nat \<Rightarrow> heap" where
  "pool_heap b h fs m n =
     \<lparr>cells = (\<lambda>a. if a = fs then Some (PA (pool_slots (brk h) m n))
                    else if brk h \<le> a \<and> a < brk h + m then Some (FS (init_FrameStore b))
                    else cells h a),
      brk = brk h + m\<rparr>"

text \<open>
  The arrays are allocated first, so the frame stores of the pool start three addresses
  (four when \<open>fs_ilref\<close> is allocated) after the first free address.
\<close>

definition pool_base :: "build_env \<Rightarrow> heap \<Rightarrow> addr" where
  "pool_base b h = (if MVC_EXTENSION_ENABLE b then brk h + 4 else brk h + 3)"

definition pool_dpb :: "build_env \<Rightarrow> DecodedPictureBuffer \<Rightarrow> heap \<Rightarrow> DecodedPictureBuffer" where
  "pool_dpb b dpb h =
     (if MVC_EXTENSION_ENABLE b
      then dpb\<lparr>dpb_fs := Some (brk h), dpb_fs_ref := Some (brk h + 1),
               dpb_fs_ltref := Some (brk h + 2), dpb_fs_ilref := Some (brk h + 3)\<rparr>
      else dpb\<lparr>dpb_fs := Some (brk h), dpb_fs_ref := Some (brk h + 1),
               dpb_fs_ltref := Some (brk h + 2)\<rparr>)"

text \<open>The vertical size of a picture of the given structure: a field has half the lines.\<close>

definition picture_height :: "PictureStructure \<Rightarrow> int \<Rightarrow> int" where
  "picture_height structure size_y =
     (if structure = TOP_FIELD \<or> structure = BOTTOM_FIELD then c_div size_y 2 else size_y)"

text \<open>
  The sizes that \<open>alloc_storable_picture\<close> can work with: every number it computes from
  them and from the paddings of \<open>p_Vid\<close> is an \<open>int\<close>, and the number of 4x4 blocks is not
  negative.
\<close>

definition fits_int :: "int \<Rightarrow> bool" where
  "fits_int x = (INT_MIN \<le> x \<and> x \<le> INT_MAX)"

definition picture_sizes_fit ::
  "VideoParameters \<Rightarrow> PictureStructure \<Rightarrow> int \<Rightarrow> int \<Rightarrow> int \<Rightarrow> int \<Rightarrow> bool" where
  "picture_sizes_fit p_Vid structure size_x size_y size_x_cr size_y_cr =
     (let sy = picture_height structure size_y;
          sy_cr = picture_height structure size_y_cr;
          blocks = shr sy BLOCK_SHIFT * shr size_x BLOCK_SHIFT
      in fits_int (size_x * sy)
         \<and> fits_int (2 * vid_iLumaPadX p_Vid) \<and> fits_int (size_x + 2 * vid_iLumaPadX p_Vid)
         \<and> fits_int (2 * vid_iLumaPadY p_Vid) \<and> fits_int (sy + 2 * vid_iLumaPadY p_Vid)
         \<and> fits_int (2 * vid_iChromaPadX p_Vid)
         \<and> fits_int (size_x_cr + 2 * vid_iChromaPadX p_Vid)
         \<and> fits_int (2 * vid_iChromaPadY p_Vid)
         \<and> fits_int (sy_cr + 2 * vid_iChromaPadY p_Vid)
         \<and> 0 \<le> blocks \<and> fits_int blocks
         \<and> fits_int (size_x - 1) \<and> fits_int (sy - 1)
         \<and> fits_int (size_x_cr - 1) \<and> fits_int (sy_cr - 1))"

text \<open>The same for the picture that \<open>init_dpb\<close> allocates for missing references.\<close>

definition sentinel_sizes_fit :: "VideoParameters \<Rightarrow> bool" where
  "sentinel_sizes_fit p_Vid =
     picture_sizes_fit p_Vid FRAME (vid_width p_Vid) (vid_height p_Vid)
       (vid_width_cr p_Vid) (vid_height_cr p_Vid)"

text \<open>
  Example inputs. \<open>example_build\<close> is one choice for what the headers leave open; the
  parameter set is level 3.1 with a frame picture of 128 by 64 macroblocks.
\<close>

definition example_build :: build_env where
  "example_build =
     \<lparr>MVC_EXTENSION_ENABLE = True,
      is_FREXT_profile = (\<lambda>p. p = 0 \<or> p = 100 \<or> p = 110 \<or> p = 122 \<or> p = 244 \<or> p = 44),
      RoundLog2 = (\<lambda>n. 0),
      MVC_INIT_VIEW_ID = - 1,
      YUV400 = 0,
      MAX_NUM_SLICES = 2\<rparr>"

definition example_sps :: seq_parameter_set_rbsp_t where
  "example_sps =
     \<lparr>sps_profile_idc = 100, sps_constrained_set3_flag = 0, sps_level_idc = 31,
      sps_chroma_format_idc = 1, sps_num_ref_frames = 1,
      sps_pic_width_in_mbs_minus1 = 127, sps_pic_height_in_map_units_minus1 = 63,
      sps_frame_mbs_only_flag = 1, sps_vui_parameters_present_flag = 0,
      sps_vui_seq_parameters =
        \<lparr>vui_bitstream_restriction_flag = 0, vui_max_dec_frame_buffering = 0\<rparr>,
      sps_max_dec_frame_buffering = 2\<rparr>"

definition default_dpb_plus :: "int \<times> int" where
  "default_dpb_plus = (fst (snd (Map ! 0)), fst (snd (Map ! 1)))"

definition example_vid :: VideoParameters where
  "example_vid =
     \<lparr>vid_active_sps = example_sps, vid_active_subset_sps_num_views_minus1 = None,
      vid_profile_idc = 100, inp_dpb_plus = default_dpb_plus,
      vid_no_reference_picture = None,
      vid_width = 2048, vid_height = 1024, vid_width_cr = 1024, vid_height_cr = 512,
      vid_iLumaPadY = 20, vid_iLumaPadX = 32, vid_iChromaPadY = 10, vid_iChromaPadX = 16,
      vid_separate_colour_plane_flag = 0, vid_conceal_mode = 0, vid_last_out_fs = None,
      vid_last_has_mmco_5 = 0\<rparr>"

text \<open>A state with another active sequence parameter set.\<close>

definition with_active_sps :: "state \<Rightarrow> seq_parameter_set_rbsp_t \<Rightarrow> state" where
  "with_active_sps st active_sps = st\<lparr>st_vid := (st_vid st)\<lparr>vid_active_sps := active_sps\<rparr>\<rparr>"

text \<open>
  Example states. \<open>example_state\<close> is the decoder before the first \<open>init_dpb\<close>: nothing is
  allocated and the buffer is as \<open>calloc\<close> returns it. \<open>used_state\<close> is a buffer in use: a
  pool of two slots, the first with a frame attached, and the picture for missing
  references.
\<close>

definition empty_heap :: heap where
  "empty_heap = \<lparr>cells = (\<lambda>a. None), brk = 0\<rparr>"

definition zero_DecodedPictureBuffer :: DecodedPictureBuffer where
  "zero_DecodedPictureBuffer =
     \<lparr>dpb_p_Vid = False, dpb_fs = None, dpb_fs_ref = None, dpb_fs_ltref = None,
      dpb_fs_ilref = None, dpb_size = 0, dpb_used_size = 0, dpb_ref_frames_in_buffer = 0,
      dpb_ltref_frames_in_buffer = 0, dpb_last_output_poc = 0, dpb_last_output_view_id = 0,
      dpb_init_done = 0, dpb_num_ref_frames = 0, dpb_last_picture = None\<rparr>"

definition example_state :: state where
  "example_state =
     \<lparr>st_vid = example_vid, st_dpb = zero_DecodedPictureBuffer, st_heap = empty_heap,
      st_stderr = []\<rparr>"

definition used_heap :: heap where
  "used_heap =
     \<lparr>cells =
        map_of
          [(0, PA [Some 4, Some 5]), (1, PA [None, None]), (2, PA [None, None]),
           (3, PA [None]),
           (4, FS (zero_FrameStore\<lparr>f_frame := Some 6\<rparr>)), (5, FS zero_FrameStore),
           (6, SP (zero_StorablePicture example_build)),
           (7, SP (zero_StorablePicture example_build))],
      brk = 8\<rparr>"

definition used_state :: state where
  "used_state =
     \<lparr>st_vid = example_vid\<lparr>vid_no_reference_picture := Some 7\<rparr>,
      st_dpb =
        zero_DecodedPictureBuffer
          \<lparr>dpb_p_Vid := True, dpb_fs := Some 0, dpb_fs_ref := Some 1, dpb_fs_ltref := Some 2,
           dpb_fs_ilref := Some 3, dpb_size := 2, dpb_init_done := 1\<rparr>,
      st_heap = used_heap,
      st_stderr = []\<rparr>"


section \<open>Properties of getDpbSize\<close>

subsection \<open>Arithmetic\<close>

lemma c_div_nonneg: "0 \<le> a \<Longrightarrow> 0 < b \<Longrightarrow> c_div a b = a div b"
  by (cases "a = 0") (simp_all add: c_div_def)

lemma sint_of_nat_small:
  assumes "n < 2 ^ 31"
  shows "sint (of_nat n :: u32) = int n"
proof -
  have "sint (of_nat n :: u32) = signed_take_bit 31 (int n)"
    using sint_sbintrunc' [of "int n", where 'a = 32] by simp
  also have "\<dots> = int n"
    using assms by (intro signed_take_bit_int_eq_self) auto
  finally show ?thesis .
qed

lemma sint_prod3:
  fixes w h k :: u32
  assumes "(unat w + 1) * (unat h + 1) * unat k < 2 ^ 31"
  shows "sint ((w + 1) * (h + 1) * k) = int ((unat w + 1) * (unat h + 1) * unat k)"
proof -
  let ?P = "(unat w + 1) * (unat h + 1) * unat k"
  have e: "(w + 1) * (h + 1) * k = of_nat ?P"
    by (simp add: algebra_simps)
  show ?thesis unfolding e using assms by (rule sint_of_nat_small)
qed

lemma sint_of_nat_large:
  assumes "2 ^ 31 \<le> n" "n < 2 ^ 32"
  shows "sint (of_nat n :: u32) = int n - 2 ^ 32"
proof -
  let ?x = "int n + 2 ^ 31"
  have b: "(2::int) ^ 32 \<le> ?x" "?x - 2 ^ 32 < 2 ^ 32"
    using assms by simp_all
  have "sint (of_nat n :: u32) = signed_take_bit 31 (int n)"
    using sint_sbintrunc' [of "int n", where 'a = 32] by simp
  also have "\<dots> = take_bit 32 ?x - 2 ^ 31"
    by (simp add: signed_take_bit_eq_take_bit_shift)
  also have "take_bit 32 ?x = ?x mod 2 ^ 32"
    by (simp only: take_bit_eq_mod)
  also have "?x mod 2 ^ 32 = (?x - 2 ^ 32) mod 2 ^ 32"
    by (simp only: minus_mod_self2)
  also have "\<dots> = ?x - 2 ^ 32"
    using b by (intro mod_pos_pos_trivial) simp_all
  finally show ?thesis by simp
qed

lemma c_div_neg: "0 < a \<Longrightarrow> b < 0 \<Longrightarrow> c_div a b = - (a div (- b))"
  by (simp add: c_div_def)

lemma div_neg_mono:
  fixes n a a' :: int
  assumes "0 < n" "a \<le> a'" "a' < 0"
  shows "- (n div (- a')) \<le> - (n div (- a))"
proof -
  have "n div (- a) \<le> n div (- a')"
    using assms by (intro zdiv_mono2) simp_all
  then show ?thesis by simp
qed

lemma pic_size_mb_nowrap:
  assumes "spec_pic_size (unat (sps_pic_width_in_mbs_minus1 s) + 1)
             (unat (sps_pic_height_in_map_units_minus1 s) + 1)
             (sps_frame_mbs_only_flag s \<noteq> 0) < 2 ^ 31"
  shows "pic_size_mb s = int (spec_pic_size (unat (sps_pic_width_in_mbs_minus1 s) + 1)
             (unat (sps_pic_height_in_map_units_minus1 s) + 1)
             (sps_frame_mbs_only_flag s \<noteq> 0))"
proof (cases "sps_frame_mbs_only_flag s \<noteq> 0")
  case True
  then show ?thesis
    using assms
      sint_prod3 [of "sps_pic_width_in_mbs_minus1 s" "sps_pic_height_in_map_units_minus1 s" 1]
    by (simp add: pic_size_mb_def spec_pic_size_def)
next
  case False
  then show ?thesis
    using assms
      sint_prod3 [of "sps_pic_width_in_mbs_minus1 s" "sps_pic_height_in_map_units_minus1 s" 2]
    by (simp add: pic_size_mb_def spec_pic_size_def)
qed

lemma pic_size_mb_picture_size:
  "picture_size_in_mbs s < 2 ^ 31 \<Longrightarrow> pic_size_mb s = int (picture_size_in_mbs s)"
  unfolding picture_size_in_mbs_def by (rule pic_size_mb_nowrap)

lemma picture_size_in_mbs_pos: "0 < picture_size_in_mbs s"
  by (simp add: picture_size_in_mbs_def spec_pic_size_def)

lemma pic_size_mb_of_nat: "pic_size_mb s = sint (of_nat (picture_size_in_mbs s) :: u32)"
proof -
  have e: "(w + 1) * (h + 1) * k = of_nat ((unat w + 1) * (unat h + 1) * unat k)"
    for w h k :: u32
    by (simp add: algebra_simps)
  show ?thesis
    unfolding pic_size_mb_def picture_size_in_mbs_def spec_pic_size_def e
    by simp
qed

lemma pic_size_mb_large:
  assumes "2 ^ 31 \<le> picture_size_in_mbs s" "picture_size_in_mbs s < 2 ^ 32"
  shows "pic_size_mb s = int (picture_size_in_mbs s) - 2 ^ 32"
  unfolding pic_size_mb_of_nat using assms by (rule sint_of_nat_large)

subsection \<open>The level table\<close>

lemma level_size_pos: "level_size b s = Some n \<Longrightarrow> 0 < n \<and> n \<le> 696320"
  by (auto simp: level_size_def Let_def split: if_splits)

lemma level_size_nonzero: "level_size b s = Some n \<Longrightarrow> sps_level_idc s \<noteq> 0"
  by (auto simp: level_size_def Let_def split: if_splits)

lemma level_size_with_picture_size [simp]:
  "level_size b (with_picture_size s w h f) = level_size b s"
  by (simp add: level_size_def with_picture_size_def)

lemma vui_override_with_picture_size [simp]:
  "vui_override (with_picture_size s w h f) = vui_override s"
  by (simp add: vui_override_def with_picture_size_def)

lemma level_idc_with_picture_size [simp]:
  "sps_level_idc (with_picture_size s w h f) = sps_level_idc s"
  by (simp add: with_picture_size_def)

subsection \<open>The size without a VUI\<close>

lemma getDpbSize_level0: "sps_level_idc s = 0 \<Longrightarrow> getDpbSize b v s err = Some (16, err)"
  by (simp add: getDpbSize_def)

lemma getDpbSize_plain:
  assumes "level_size b s = Some n" "single_view b v" "\<not> vui_override s" "0 < pic_size_mb s"
  shows "getDpbSize b v s err = Some (imin (n div pic_size_mb s) 16, err)"
proof -
  have "0 < n" using level_size_pos[OF assms(1)] by simp
  then have "c_div n (pic_size_mb s) = n div pic_size_mb s"
    using assms(4) by (simp add: c_div_nonneg)
  then show ?thesis
    using assms level_size_nonzero[OF assms(1)]
    by (auto simp: getDpbSize_def single_view_def vui_override_def)
qed

lemma getDpbSize_range:
  assumes sv: "single_view b v" and nv: "\<not> vui_override s"
    and valid: "valid_level_picture_size b s"
  shows "\<exists>n. getDpbSize b v s err = Some (n, err) \<and> 1 \<le> n \<and> n \<le> 16"
proof (cases "level_size b s")
  case None
  then have "sps_level_idc s = 0" using valid by (simp add: valid_level_picture_size_def)
  then show ?thesis by (simp add: getDpbSize_level0)
next
  case (Some n)
  then have le: "int (picture_size_in_mbs s) \<le> n"
    using valid by (simp add: valid_level_picture_size_def)
  then have "picture_size_in_mbs s < 2 ^ 31"
    using level_size_pos[OF Some] by simp
  then have e: "pic_size_mb s = int (picture_size_in_mbs s)"
    by (rule pic_size_mb_picture_size)
  have p: "0 < pic_size_mb s" "pic_size_mb s \<le> n"
    using le picture_size_in_mbs_pos[of s] by (simp_all add: e)
  have "0 < n div pic_size_mb s"
    using p by (simp add: pos_imp_zdiv_pos_iff)
  then have "1 \<le> n div pic_size_mb s" by simp
  then show ?thesis
    using getDpbSize_plain[OF Some sv nv p(1)] by (simp add: imin_def)
qed

text \<open>
  For a level with a budget the size is the budget divided by the picture size as the
  code holds it. As long as the unsigned product does not wrap, a larger picture gets a
  smaller quotient, also where the \<open>int\<close> that holds the product is negative.
\<close>

lemma quotient_monotone:
  assumes n: "0 < n"
    and p: "picture_size_in_mbs s \<le> picture_size_in_mbs s'" "picture_size_in_mbs s' < 2 ^ 32"
  shows "pic_size_mb s \<noteq> 0 \<and> pic_size_mb s' \<noteq> 0
         \<and> c_div n (pic_size_mb s') \<le> c_div n (pic_size_mb s)"
proof -
  let ?P = "picture_size_in_mbs s" and ?P' = "picture_size_in_mbs s'"
  have pos: "0 < ?P" "0 < ?P'" by (rule picture_size_in_mbs_pos)+
  consider "?P' < 2 ^ 31" | "?P < 2 ^ 31" "2 ^ 31 \<le> ?P'" | "2 ^ 31 \<le> ?P"
    by linarith
  then show ?thesis
  proof cases
    case 1
    then have e: "pic_size_mb s = int ?P" "pic_size_mb s' = int ?P'"
      using p(1) by (simp_all add: pic_size_mb_picture_size)
    have "n div int ?P' \<le> n div int ?P"
      using n p(1) pos by (intro zdiv_mono2) simp_all
    then show ?thesis
      using pos n by (simp add: e c_div_nonneg)
  next
    case 2
    then have e: "pic_size_mb s = int ?P" "pic_size_mb s' = int ?P' - 2 ^ 32"
      using p(2) by (simp_all add: pic_size_mb_picture_size pic_size_mb_large)
    have neg: "int ?P' - 2 ^ 32 < 0" using p(2) by simp
    have "0 \<le> n div int ?P" using n pos by (simp add: pos_imp_zdiv_nonneg_iff)
    moreover have "0 \<le> n div (- (int ?P' - 2 ^ 32))"
      using n neg by (simp add: pos_imp_zdiv_nonneg_iff)
    ultimately show ?thesis
      using pos n neg by (simp add: e c_div_nonneg c_div_neg)
  next
    case 3
    then have l: "2 ^ 31 \<le> ?P'" using p(1) by simp
    have e: "pic_size_mb s = int ?P - 2 ^ 32" "pic_size_mb s' = int ?P' - 2 ^ 32"
      using 3 l p by (simp_all add: pic_size_mb_large)
    have neg: "int ?P - 2 ^ 32 < 0" "int ?P' - 2 ^ 32 < 0" using p by simp_all
    have "- (n div (- (int ?P' - 2 ^ 32))) \<le> - (n div (- (int ?P - 2 ^ 32)))"
      using n p(1) neg by (intro div_neg_mono) simp_all
    then show ?thesis
      using n neg by (simp add: e c_div_neg)
  qed
qed

lemma getDpbSize_quotient:
  assumes "level_size b s = Some n" "single_view b v" "\<not> vui_override s" "pic_size_mb s \<noteq> 0"
  shows "getDpbSize b v s err = Some (imin (c_div n (pic_size_mb s)) 16, err)"
  using assms level_size_nonzero[OF assms(1)]
  by (auto simp: getDpbSize_def single_view_def vui_override_def)

lemma getDpbSize_monotone:
  assumes sv: "single_view b v" and nv: "\<not> vui_override s"
    and rec: "recognized_level b s"
    and p: "picture_size_in_mbs s \<le> picture_size_in_mbs (with_picture_size s w h f)"
      "picture_size_in_mbs (with_picture_size s w h f) < 2 ^ 32"
  shows "\<exists>n n'. getDpbSize b v s err = Some (n, err)
            \<and> getDpbSize b v (with_picture_size s w h f) err = Some (n', err) \<and> n' \<le> n"
proof (cases "level_size b s")
  case None
  then have "sps_level_idc s = 0" using rec by (simp add: recognized_level_def)
  then show ?thesis by (simp add: getDpbSize_level0)
next
  case (Some n)
  let ?s' = "with_picture_size s w h f"
  have n: "0 < n" using level_size_pos[OF Some] by simp
  note q = quotient_monotone[OF n p]
  have "getDpbSize b v s err = Some (imin (c_div n (pic_size_mb s)) 16, err)"
    using Some sv nv q by (intro getDpbSize_quotient) simp_all
  moreover have "getDpbSize b v ?s' err = Some (imin (c_div n (pic_size_mb ?s')) 16, err)"
    using Some sv nv q by (intro getDpbSize_quotient) simp_all
  ultimately show ?thesis
    using q by (simp add: imin_def)
qed

subsection \<open>The examples\<close>

lemma pic_size_mb_example: "pic_size_mb example_sps = 8192"
  by (simp add: pic_size_mb_def example_sps_def)

lemma single_view_example: "single_view b example_vid"
  by (simp add: single_view_def example_vid_def MVC_HIGH_def STEREO_HIGH_def)

lemma level_size_example: "level_size b example_sps = Some 18000"
  by (simp add: level_size_def example_sps_def)

lemmas getDpbSize_eval =
  getDpbSize_def level_size_def pic_size_mb_def example_sps_def example_vid_def
  with_vui_def without_vui_def with_picture_size_def vui_override_def single_view_def
  recognized_level_def valid_level_picture_size_def picture_size_in_mbs_def spec_pic_size_def
  MVC_HIGH_def STEREO_HIGH_def c_div_def imin_def imax_def error_def

lemma getDpbSize_example: "getDpbSize b example_vid example_sps stderr = Some (2, stderr)"
  by (simp add: getDpbSize_eval)

text \<open>
  With a VUI override \<open>getDpbSize\<close> returns what the VUI asks for, at least 1; where that
  is more than the bound, it prints the message before: \<open>error\<close> comes back.
\<close>

lemma level_size_without_vui [simp]: "level_size b (without_vui s) = level_size b s"
  by (simp add: level_size_def without_vui_def)

lemma pic_size_mb_without_vui [simp]: "pic_size_mb (without_vui s) = pic_size_mb s"
  by (simp add: pic_size_mb_def without_vui_def)

lemma sel_without_vui [simp]:
  "sps_level_idc (without_vui s) = sps_level_idc s"
  "sps_vui_parameters_present_flag (without_vui s) = 0"
  by (simp_all add: without_vui_def)

lemma getDpbSize_vui:
  assumes "getDpbSize b v (without_vui s) err = Some (bound, err')"
    and "vui_override s" and "sps_level_idc s \<noteq> 0"
  shows "getDpbSize b v s err =
     Some (imax 1 (sint (vui_max_dec_frame_buffering (sps_vui_seq_parameters s))),
           if sint (vui_max_dec_frame_buffering (sps_vui_seq_parameters s)) > bound
           then error ''max_dec_frame_buffering larger than MaxDpbSize'' 500 err' else err')"
  using assms
  by (auto simp: getDpbSize_def vui_override_def Let_def
      split: if_splits option.splits prod.splits Option.bind_splits)

lemma getDpbSize_vui_too_large_returns:
  "getDpbSize b example_vid (with_vui example_sps 5) stderr =
     Some (5, stderr @ [''max_dec_frame_buffering larger than MaxDpbSize''])"
  by (simp add: getDpbSize_eval)

section \<open>Properties of the allocation and release functions\<close>

subsection \<open>Pictures as alloc_storable_picture returns them\<close>

text \<open>
  \<open>alloc_storable_picture\<close> returns exactly for the sizes that fit. The loop over the lists
  of a picture changes \<open>listX\<close> and nothing else.
\<close>

lemma c_int_eq_Some [simp]: "(c_int x = Some y) = (fits_int x \<and> y = x)"
  by (auto simp: c_int_def fits_int_def)

lemma alloc_pic_motion_eq_Some:
  "(alloc_pic_motion m d0 d1 = Some m') =
     (fits_int (d0 * d1) \<and> 0 \<le> d0 * d1 \<and> m' = m\<lparr>mb_field := Some (Bytes (d0 * d1))\<rparr>)"
  by (auto simp: alloc_pic_motion_def c_mul_def no_mem_exit_def bind_eq_Some_conv)

lemma alloc_JV_planes_eq_Some:
  assumes "s_JVmv_info s = replicate MAX_PLANE None"
    and "s_JVmotion s = replicate MAX_PLANE \<lparr>mb_field = None\<rparr>"
  shows "(alloc_JV_planes d0 d1 s = Some s') =
     (fits_int (d0 * d1) \<and> 0 \<le> d0 * d1
      \<and> s' = s\<lparr>s_JVmv_info := replicate MAX_PLANE (Some (Mem2Dmp d0 d1)),
               s_JVmotion := replicate MAX_PLANE \<lparr>mb_field = Some (Bytes (d0 * d1))\<rparr>\<rparr>)"
  using assms
  by (auto simp: alloc_JV_planes_def MAX_PLANE_def numeral_3_eq_3 bind_eq_Some_conv
      alloc_pic_motion_eq_Some get_mem2Dmp_def)

lemma picture_height_alt:
  "(if structure \<noteq> FRAME then c_div y 2 else y) = picture_height structure y"
  by (cases "structure") (simp_all add: picture_height_def)

lemmas alloc_storable_picture_unfold =
  alloc_storable_picture_def Let_def picture_height_alt bind_eq_Some_conv
  c_mul_def c_add_def c_sub_def alloc_pic_motion_eq_Some

lemma zero_JV:
  "s_JVmv_info (zero_StorablePicture b) = replicate MAX_PLANE None"
  "s_JVmotion (zero_StorablePicture b) = replicate MAX_PLANE \<lparr>mb_field = None\<rparr>"
  by (simp_all add: zero_StorablePicture_def)

lemma alloc_storable_picture_fits:
  assumes "alloc_storable_picture b p_Vid structure size_x size_y size_x_cr size_y_cr is_output h
             = Some (p, h')"
  shows "picture_sizes_fit p_Vid structure size_x size_y size_x_cr size_y_cr"
  using assms
  by (auto simp: alloc_storable_picture_unfold picture_sizes_fit_def split: if_splits)

lemma c_int_fits: "fits_int x \<Longrightarrow> c_int x = Some x"
  by simp

lemma alloc_pic_motion_fits:
  "fits_int (d0 * d1) \<Longrightarrow> 0 \<le> d0 * d1 \<Longrightarrow>
   alloc_pic_motion m d0 d1 = Some (m\<lparr>mb_field := Some (Bytes (d0 * d1))\<rparr>)"
  by (simp add: alloc_pic_motion_eq_Some)

lemma alloc_JV_planes_fits:
  assumes "s_JVmv_info s = replicate MAX_PLANE None"
    and "s_JVmotion s = replicate MAX_PLANE \<lparr>mb_field = None\<rparr>"
    and "fits_int (d0 * d1)" "0 \<le> d0 * d1"
  shows "alloc_JV_planes d0 d1 s =
     Some (s\<lparr>s_JVmv_info := replicate MAX_PLANE (Some (Mem2Dmp d0 d1)),
             s_JVmotion := replicate MAX_PLANE \<lparr>mb_field = Some (Bytes (d0 * d1))\<rparr>\<rparr>)"
  using assms by (simp add: alloc_JV_planes_eq_Some)

lemma fold_listX_only:
  assumes "\<And>j s. f j s = s\<lparr>s_listX := g j s\<rparr>"
  shows "fold f xs s = s\<lparr>s_listX := s_listX (fold f xs s)\<rparr>"
proof (induction xs arbitrary: s)
  case Nil
  show ?case by simp
next
  case (Cons x xs)
  have "fold f (x # xs) s = fold f xs (f x s)" by simp
  also have "\<dots> = (f x s)\<lparr>s_listX := s_listX (fold f xs (f x s))\<rparr>" by (rule Cons.IH)
  also have "\<dots> = s\<lparr>s_listX := s_listX (fold f xs (f x s))\<rparr>"
    by (subst assms) simp
  finally show ?case by simp
qed

lemma alloc_listX_only: "alloc_listX b s = s\<lparr>s_listX := s_listX (alloc_listX b s)\<rparr>"
  unfolding alloc_listX_def
  by (rule fold_listX_only [where g = "\<lambda>j s. s_listX (fold
            (\<lambda>i s.
               s\<lparr>s_listX :=
                   (s_listX s)[j := (s_listX s ! j)[i := Some (Pointers MAX_LIST_SIZE)]]\<rparr>)
            [0..<2] s)"]) (simp add: upt_conv_Cons)

lemma alloc_listX_fields [simp]:
  "s_structure (alloc_listX b s) = s_structure s"
  "s_size_x (alloc_listX b s) = s_size_x s"
  "s_size_y (alloc_listX b s) = s_size_y s"
  "s_size_x_cr (alloc_listX b s) = s_size_x_cr s"
  "s_size_y_cr (alloc_listX b s) = s_size_y_cr s"
  "s_imgY (alloc_listX b s) = s_imgY s"
  "s_imgUV (alloc_listX b s) = s_imgUV s"
  "s_mv_info (alloc_listX b s) = s_mv_info s"
  "s_motion (alloc_listX b s) = s_motion s"
  "s_JVmv_info (alloc_listX b s) = s_JVmv_info s"
  "s_JVmotion (alloc_listX b s) = s_JVmotion s"
  "s_frame (alloc_listX b s) = s_frame s"
  "s_top_field (alloc_listX b s) = s_top_field s"
  "s_bottom_field (alloc_listX b s) = s_bottom_field s"
  by (subst alloc_listX_only, simp)+

lemma alloc_storable_picture_result:
  assumes "picture_sizes_fit p_Vid structure size_x size_y size_x_cr size_y_cr"
  shows "\<exists>s. alloc_storable_picture b p_Vid structure size_x size_y size_x_cr size_y_cr is_output h
              = Some (c_calloc (SP s) h)
          \<and> s_structure s = structure
          \<and> s_size_x s = size_x \<and> s_size_y s = picture_height structure size_y
          \<and> s_size_x_cr s = size_x_cr \<and> s_size_y_cr s = picture_height structure size_y_cr
          \<and> s_imgY s = Some (Mem2Dpel_pad (picture_height structure size_y) size_x
                              (vid_iLumaPadY p_Vid) (vid_iLumaPadX p_Vid))
          \<and> s_imgUV s =
              (if sps_chroma_format_idc (vid_active_sps p_Vid) = YUV400 b then None
               else Some (Mem3Dpel_pad 2 (picture_height structure size_y_cr) size_x_cr
                            (vid_iChromaPadY p_Vid) (vid_iChromaPadX p_Vid)))
          \<and> s_mv_info s = Some (Mem2Dmp (shr (picture_height structure size_y) BLOCK_SHIFT)
                                  (shr size_x BLOCK_SHIFT))
          \<and> s_motion s =
              \<lparr>mb_field = Some (Bytes (shr (picture_height structure size_y) BLOCK_SHIFT
                                         * shr size_x BLOCK_SHIFT))\<rparr>
          \<and> s_JVmv_info s =
              replicate MAX_PLANE
                (if vid_separate_colour_plane_flag p_Vid = 0 then None
                 else Some (Mem2Dmp (shr (picture_height structure size_y) BLOCK_SHIFT)
                              (shr size_x BLOCK_SHIFT)))
          \<and> s_JVmotion s =
              replicate MAX_PLANE
                (if vid_separate_colour_plane_flag p_Vid = 0 then \<lparr>mb_field = None\<rparr>
                 else \<lparr>mb_field = Some (Bytes (shr (picture_height structure size_y) BLOCK_SHIFT
                                                * shr size_x BLOCK_SHIFT))\<rparr>)
          \<and> s_frame s = vid_no_reference_picture p_Vid
          \<and> s_top_field s = vid_no_reference_picture p_Vid
          \<and> s_bottom_field s = vid_no_reference_picture p_Vid"
proof -
  let ?sy = "picture_height structure size_y"
  let ?sy_cr = "picture_height structure size_y_cr"
  have f: "c_int (size_x * ?sy) = Some (size_x * ?sy)"
    "c_int (2 * vid_iLumaPadX p_Vid) = Some (2 * vid_iLumaPadX p_Vid)"
    "c_int (size_x + 2 * vid_iLumaPadX p_Vid) = Some (size_x + 2 * vid_iLumaPadX p_Vid)"
    "c_int (2 * vid_iLumaPadY p_Vid) = Some (2 * vid_iLumaPadY p_Vid)"
    "c_int (?sy + 2 * vid_iLumaPadY p_Vid) = Some (?sy + 2 * vid_iLumaPadY p_Vid)"
    "c_int (2 * vid_iChromaPadX p_Vid) = Some (2 * vid_iChromaPadX p_Vid)"
    "c_int (size_x_cr + 2 * vid_iChromaPadX p_Vid) = Some (size_x_cr + 2 * vid_iChromaPadX p_Vid)"
    "c_int (2 * vid_iChromaPadY p_Vid) = Some (2 * vid_iChromaPadY p_Vid)"
    "c_int (?sy_cr + 2 * vid_iChromaPadY p_Vid) = Some (?sy_cr + 2 * vid_iChromaPadY p_Vid)"
    "c_int (size_x - 1) = Some (size_x - 1)" "c_int (?sy - 1) = Some (?sy - 1)"
    "c_int (size_x_cr - 1) = Some (size_x_cr - 1)" "c_int (?sy_cr - 1) = Some (?sy_cr - 1)"
    using assms by (simp_all add: picture_sizes_fit_def Let_def)
  have m: "fits_int (shr ?sy BLOCK_SHIFT * shr size_x BLOCK_SHIFT)"
    "0 \<le> shr ?sy BLOCK_SHIFT * shr size_x BLOCK_SHIFT"
    using assms by (simp_all add: picture_sizes_fit_def Let_def)
  show ?thesis
    unfolding alloc_storable_picture_def Let_def picture_height_alt c_mul_def c_add_def c_sub_def
    apply (simp only: f bind.bind_lunit alloc_pic_motion_fits[OF m])
    apply (cases "vid_separate_colour_plane_flag p_Vid = 0")
     apply (simp_all add: alloc_JV_planes_fits zero_JV m)
     apply (intro conjI impI; rule exI; rule conjI[OF refl];
        simp add: zero_StorablePicture_def get_mem2Dpel_pad_def get_mem3Dpel_pad_def
          get_mem2Dmp_def)
    apply (intro conjI impI; rule exI; rule conjI[OF refl];
        simp add: zero_StorablePicture_def get_mem2Dpel_pad_def get_mem3Dpel_pad_def
          get_mem2Dmp_def)
    done
qed


subsection \<open>Releasing addresses\<close>

text \<open>
  Each of the functions that free is brought into a closed form: on valid pointers it
  returns the heap with the addresses it owns released. \<open>free_frame_store\<close> goes through
  its three blocks one after the other; the loop over the pool is an induction on the
  number of slots done, where what is released so far leaves the later slots untouched.
\<close>

lemma heap_eqI: "brk h = brk h' \<Longrightarrow> (\<And>a. cells h a = cells h' a) \<Longrightarrow> (h :: heap) = h'"
  by (cases h, cases h') auto

lemma release_simps [simp]:
  "cells (release as h) a = (if a \<in> set as then None else cells h a)"
  "brk (release as h) = brk h"
  by (simp_all add: release_def)

lemma release_Nil [simp]: "release [] h = h"
  by (rule heap_eqI) simp_all

lemma release_release: "release bs (release as h) = release (as @ bs) h"
  by (rule heap_eqI) auto

lemma is_pictureE: "is_picture h p \<Longrightarrow> \<exists>s. cells h p = Some (SP s)"
  by (auto simp: is_picture_def split: option.splits obj.splits)

lemma is_picture_not_fs: "is_picture h p \<Longrightarrow> cells h a = Some (FS x) \<Longrightarrow> p \<noteq> a"
  by (auto simp: is_picture_def)

lemma is_picture_release:
  "p \<notin> set as \<Longrightarrow> is_picture (release as h) p = is_picture h p"
  by (simp add: is_picture_def)

lemma free_storable_picture_Some:
  assumes "is_picture h p"
  shows "free_storable_picture b (Some p) h = Some (release [p] h)"
proof -
  obtain s where s: "cells h p = Some (SP s)" using is_pictureE[OF assms] by blast
  show ?thesis
    by (auto simp: free_storable_picture_def read_sp_def write_sp_def c_free_def s Let_def
        intro!: heap_eqI)
qed

lemma free_attached_None:
  assumes "cells h a = Some (FS x)" "field x = None"
  shows "free_attached b a field clear h = Some h"
  using assms by (simp add: free_attached_def read_fs_def)

lemma free_attached_Some:
  assumes "cells h a = Some (FS x)" "field x = Some p" "is_picture h p"
  shows "free_attached b a field clear h =
           Some ((release [p] h)\<lparr>cells := (cells (release [p] h))(a \<mapsto> FS (clear x))\<rparr>)"
proof -
  have "p \<noteq> a" using assms by (auto simp: is_picture_def)
  then show ?thesis
    using assms
    by (simp add: free_attached_def read_fs_def write_fs_def free_storable_picture_Some)
qed

lemma free_attached_gen:
  assumes a: "cells h a = Some (FS x)"
    and p: "list_all (is_picture h) (opt_addr (field x))"
  shows "\<exists>h'. free_attached b a field clear h = Some h'
           \<and> brk h' = brk h
           \<and> cells h' a = Some (FS (case field x of None \<Rightarrow> x | Some p \<Rightarrow> clear x))
           \<and> (\<forall>q. q \<noteq> a \<longrightarrow> cells h' q = (if Some q = field x then None else cells h q))"
proof (cases "field x")
  case None
  then show ?thesis using a free_attached_None[of h a x field b clear] by simp
next
  case (Some p)
  then have ip: "is_picture h p" using p by (simp add: opt_addr_def)
  have "p \<noteq> a" using is_picture_not_fs[OF ip a] .
  then show ?thesis
    using a Some free_attached_Some[of h a x field p b clear] ip by auto
qed

lemma free_frame_store_Some:
  assumes a: "cells h a = Some (FS x)"
    and p: "list_all (is_picture h) (attached x)"
    and d: "distinct (attached x)"
  shows "free_frame_store b (Some a) h = Some (release (attached x @ [a]) h)"
proof -
  let ?c1 = "\<lambda>x. x\<lparr>f_frame := None\<rparr>"
  let ?c2 = "\<lambda>x. x\<lparr>f_top_field := None\<rparr>"
  let ?c3 = "\<lambda>x. x\<lparr>f_bottom_field := None\<rparr>"
  have na: "\<And>q. q \<in> set (attached x) \<Longrightarrow> q \<noteq> a"
    using p a by (auto simp: list_all_iff dest: is_picture_not_fs)
  obtain h1 where h1: "free_attached b a f_frame ?c1 h = Some h1" "brk h1 = brk h"
      "cells h1 a = Some (FS (case f_frame x of None \<Rightarrow> x | Some p \<Rightarrow> ?c1 x))"
      "\<And>q. q \<noteq> a \<Longrightarrow> cells h1 q = (if Some q = f_frame x then None else cells h q)"
    using free_attached_gen[of h a x f_frame b ?c1] a p
    by (auto simp: attached_def)
  let ?x1 = "case f_frame x of None \<Rightarrow> x | Some p \<Rightarrow> ?c1 x"
  have x1: "f_top_field ?x1 = f_top_field x" "f_bottom_field ?x1 = f_bottom_field x"
    by (simp_all split: option.splits)
  have p1: "list_all (is_picture h1) (opt_addr (f_top_field ?x1))"
    using p d na h1(4) unfolding x1
    by (auto simp: attached_def opt_addr_def is_picture_def split: option.splits)
  obtain h2 where h2: "free_attached b a f_top_field ?c2 h1 = Some h2" "brk h2 = brk h1"
      "cells h2 a = Some (FS (case f_top_field ?x1 of None \<Rightarrow> ?x1 | Some p \<Rightarrow> ?c2 ?x1))"
      "\<And>q. q \<noteq> a \<Longrightarrow> cells h2 q = (if Some q = f_top_field ?x1 then None else cells h1 q)"
    using free_attached_gen[of h1 a ?x1 f_top_field b ?c2] h1(3) p1 by blast
  let ?x2 = "case f_top_field ?x1 of None \<Rightarrow> ?x1 | Some p \<Rightarrow> ?c2 ?x1"
  have x2: "f_bottom_field ?x2 = f_bottom_field x"
    by (simp split: option.splits)
  have p2: "list_all (is_picture h2) (opt_addr (f_bottom_field ?x2))"
    using p d na h1(4) h2(4) unfolding x2 x1
    by (auto simp: attached_def opt_addr_def is_picture_def split: option.splits)
  obtain h3 where h3: "free_attached b a f_bottom_field ?c3 h2 = Some h3" "brk h3 = brk h2"
      "cells h3 a = Some (FS (case f_bottom_field ?x2 of None \<Rightarrow> ?x2 | Some p \<Rightarrow> ?c3 ?x2))"
      "\<And>q. q \<noteq> a \<Longrightarrow> cells h3 q = (if Some q = f_bottom_field ?x2 then None else cells h2 q)"
    using free_attached_gen[of h2 a ?x2 f_bottom_field b ?c3] h2(3) p2 by blast
  have "c_free a h3 = Some (release (attached x @ [a]) h)"
    unfolding c_free_def
    using h3(3) h3(2) h2(2) h1(2)
    apply simp
    apply (rule heap_eqI)
     apply simp
    subgoal for q
      using h3(4)[of q] h2(4)[of q] h1(4)[of q] x1 x2
      by (auto simp: attached_def opt_addr_def split: option.splits)
    done
  then show ?thesis
    by (simp add: free_frame_store_def h1(1) h2(1) h3(1))
qed

lemma free_frame_store_owned:
  assumes "valid_fs h f"
  shows "free_frame_store b f h = Some (release (owned_fs h f) h)"
proof (cases f)
  case None
  then show ?thesis by (simp add: free_frame_store_def owned_fs_def)
next
  case (Some a)
  then obtain x where x: "cells h a = Some (FS x)"
    using assms by (auto simp: valid_fs_def split: option.splits obj.splits)
  then have "list_all (is_picture h) (attached x)" "distinct (attached x)"
    using assms Some by (simp_all add: valid_fs_def)
  then show ?thesis
    using free_frame_store_Some[of h a x b] x Some by (simp add: owned_fs_def)
qed

lemma owned_fs_release:
  assumes "valid_fs h f" "set (owned_fs h f) \<inter> set as = {}"
  shows "owned_fs (release as h) f = owned_fs h f" "valid_fs (release as h) f"
proof -
  show "owned_fs (release as h) f = owned_fs h f"
    using assms
    by (auto simp: owned_fs_def valid_fs_def split: option.splits obj.splits)
  show "valid_fs (release as h) f"
  proof (cases f)
    case None
    then show ?thesis by (simp add: valid_fs_def)
  next
    case (Some a)
    then obtain x where x: "cells h a = Some (FS x)"
      using assms by (auto simp: valid_fs_def split: option.splits obj.splits)
    have d: "a \<notin> set as" "set (attached x) \<inter> set as = {}"
      using assms(2) Some x by (auto simp: owned_fs_def)
    have "\<And>p. p \<in> set (attached x) \<Longrightarrow> is_picture (release as h) p"
    proof -
      fix p assume p: "p \<in> set (attached x)"
      then have "p \<notin> set as" using d(2) by blast
      moreover have "is_picture h p"
        using assms(1) Some x p by (simp add: valid_fs_def list_all_iff)
      ultimately show "is_picture (release as h) p" by (simp add: is_picture_release)
    qed
    then have "list_all (is_picture (release as h)) (attached x)"
      by (simp add: list_all_iff)
    then show ?thesis
      using assms(1) Some x d(1) by (simp add: valid_fs_def)
  qed
qed

lemma free_pool_loop:
  assumes arr: "cells h arr = Some (PA xs)"
    and n: "n \<le> length xs"
    and v: "list_all (valid_fs h) (take n xs)"
    and d: "distinct (concat (map (owned_fs h) (take n xs)))"
    and a: "arr \<notin> set (concat (map (owned_fs h) (take n xs)))"
  shows "for_upto n (free_dpb_slot b (Some arr)) h =
           Some (release (concat (map (owned_fs h) (take n xs))) h)"
  using n v d a
proof (induction n)
  case 0
  show ?case by simp
next
  case (Suc n)
  let ?L = "concat (map (owned_fs h) (take n xs))"
  have lt: "n < length xs" using Suc.prems(1) by simp
  have tk: "take (Suc n) xs = take n xs @ [xs ! n]"
    using lt by (simp add: take_Suc_conv_app_nth)
  have IH: "for_upto n (free_dpb_slot b (Some arr)) h = Some (release ?L h)"
    using Suc.IH Suc.prems lt by (simp add: tk)
  have vn: "valid_fs h (xs ! n)" using Suc.prems(2) by (simp add: tk)
  have dj: "set (owned_fs h (xs ! n)) \<inter> set ?L = {}"
    using Suc.prems(3) by (auto simp: tk)
  have an: "arr \<notin> set ?L" using Suc.prems(4) by (simp add: tk)
  have rd: "read_pa (release ?L h) (Some arr) n = Some (xs ! n)"
    using arr an lt by (simp add: read_pa_def)
  have "free_dpb_slot b (Some arr) n (release ?L h) =
          Some (release (owned_fs h (xs ! n)) (release ?L h))"
    using free_frame_store_owned[of "release ?L h" "xs ! n" b] owned_fs_release[OF vn dj] rd
    by (simp add: free_dpb_slot_def)
  then show ?case
    by (simp add: IH tk release_release)
qed

subsection \<open>The blocks of free_dpb\<close>

text \<open>
  The same closed forms on a heap from which some addresses are released already, and
  \<open>free_dpb\<close> as the sequence of its blocks: on a valid buffer it returns \<open>after_free_dpb\<close>.
\<close>

lemma free_frame_store_rel:
  assumes "valid_fs h f" "set (owned_fs h f) \<inter> set as = {}"
  shows "free_frame_store b f (release as h) = Some (release (as @ owned_fs h f) h)"
  using free_frame_store_owned[of "release as h" f b] owned_fs_release[OF assms]
  by (simp add: release_release)

lemma free_storable_picture_rel:
  assumes "is_picture h p" "p \<notin> set as"
  shows "free_storable_picture b (Some p) (release as h) = Some (release (as @ [p]) h)"
  using free_storable_picture_Some[of "release as h" p b] assms
  by (simp add: release_release is_picture_release)

lemma free_array_rel:
  assumes "allocated h arr" "set (opt_addr arr) \<inter> set as = {}"
  shows "free_array arr (release as h) = Some (release (as @ opt_addr arr) h)"
proof (cases arr)
  case None
  then show ?thesis by (simp add: free_array_def opt_addr_def)
next
  case (Some a)
  then show ?thesis
    using assms
    by (auto simp: free_array_def opt_addr_def allocated_def c_free_def intro!: heap_eqI)
qed

lemma free_slots_array_rel:
  assumes v: "valid_array h arr n"
    and d: "distinct (array_owned h arr n)"
    and dj: "set (array_owned h arr n) \<inter> set as = {}"
  shows "free_slots_array b arr n (release as h) = Some (release (as @ array_owned h arr n) h)"
proof (cases arr)
  case None
  then show ?thesis
    by (simp add: free_slots_array_def array_owned_def array_slots_def opt_addr_def)
next
  case (Some a)
  then obtain xs where xs: "cells h a = Some (PA xs)" "n \<le> length xs"
      "list_all (valid_fs h) (take n xs)"
    using v by (auto simp: valid_array_def split: option.splits obj.splits)
  let ?L = "concat (map (owned_fs h) (take n xs))"
  have ow: "array_owned h arr n = ?L @ [a]"
    using Some xs by (simp add: array_owned_def array_slots_def opt_addr_def)
  have a: "a \<notin> set as" "a \<notin> set ?L" "distinct ?L" "set ?L \<inter> set as = {}"
    using d dj unfolding ow by auto
  have own: "\<And>f. f \<in> set (take n xs) \<Longrightarrow> set (owned_fs h f) \<inter> set as = {}"
    using a(4) by auto
  have vf: "\<And>f. f \<in> set (take n xs) \<Longrightarrow> valid_fs h f"
    using xs(3) by (simp add: list_all_iff)
  have m: "map (owned_fs (release as h)) (take n xs) = map (owned_fs h) (take n xs)"
    using owned_fs_release(1)[OF vf own] by (simp cong: map_cong)
  have v': "list_all (valid_fs (release as h)) (take n xs)"
    using owned_fs_release(2)[OF vf own] by (simp add: list_all_iff)
  have "for_upto n (free_dpb_slot b (Some a)) (release as h) =
          Some (release (concat (map (owned_fs (release as h)) (take n xs))) (release as h))"
    using a xs by (intro free_pool_loop[where xs = xs]) (simp_all add: v' m)
  then have lp: "for_upto n (free_dpb_slot b (Some a)) (release as h)
                  = Some (release (as @ ?L) h)"
    by (simp add: m release_release)
  have "c_free a (release (as @ ?L) h) = Some (release (as @ ?L @ [a]) h)"
    using a xs(1) by (auto simp: c_free_def intro!: heap_eqI)
  then show ?thesis
    using Some lp ow by (simp add: free_slots_array_def)
qed

lemma vid_no_reference_picture_None_upd:
  "vid_no_reference_picture v = None \<Longrightarrow> v\<lparr>vid_no_reference_picture := None\<rparr> = v"
  by (cases v) simp

lemma free_dpb_closed:
  assumes v: "dpb_valid b st"
  shows "free_dpb b st = Some (after_free_dpb b st)"
proof -
  let ?h = "st_heap st"
  let ?dpb = "st_dpb st"
  let ?vid = "st_vid st"
  let ?L1 = "array_owned ?h (dpb_fs ?dpb) (unat (dpb_size ?dpb))"
  let ?L2 = "opt_addr (dpb_fs_ref ?dpb)"
  let ?L3 = "opt_addr (dpb_fs_ltref ?dpb)"
  let ?L4 = "if MVC_EXTENSION_ENABLE b then array_owned ?h (dpb_fs_ilref ?dpb) 1 else []"
  let ?L5 = "owned_fs ?h (vid_last_out_fs ?vid)"
  let ?L6 = "opt_addr (vid_no_reference_picture ?vid)"
  define A1 where "A1 = ?L1"
  define A2 where "A2 = A1 @ ?L2"
  define A3 where "A3 = A2 @ ?L3"
  define A4 where "A4 = A3 @ ?L4"
  define A5 where "A5 = A4 @ ?L5"
  define A6 where "A6 = A5 @ ?L6"
  note A_defs = A1_def A2_def A3_def A4_def A5_def A6_def
  have all: "dpb_owned b st = A6"
    by (simp add: dpb_owned_def A_defs)
  have d: "distinct A6"
    using v by (simp add: dpb_valid_def all)
  have pv: "dpb_p_Vid ?dpb" using v by (simp add: dpb_valid_def)
  have s1: "free_slots_array b (dpb_fs ?dpb) (unat (dpb_size ?dpb)) ?h = Some (release A1 ?h)"
    using free_slots_array_rel[of ?h "dpb_fs ?dpb" "unat (dpb_size ?dpb)" "[]" b] v d
    by (simp add: dpb_valid_def A_defs)
  have s2: "free_array (dpb_fs_ref ?dpb) (release A1 ?h) = Some (release A2 ?h)"
    unfolding A2_def using v d by (intro free_array_rel) (auto simp: dpb_valid_def A_defs)
  have s3: "free_array (dpb_fs_ltref ?dpb) (release A2 ?h) = Some (release A3 ?h)"
    unfolding A3_def using v d by (intro free_array_rel) (auto simp: dpb_valid_def A_defs)
  have s4: "free_slots_array b (dpb_fs_ilref ?dpb) 1 (release A3 ?h) = Some (release A4 ?h)"
    if m: "MVC_EXTENSION_ENABLE b"
  proof -
    have "valid_array ?h (dpb_fs_ilref ?dpb) 1" using v m by (simp add: dpb_valid_def)
    moreover have "distinct (array_owned ?h (dpb_fs_ilref ?dpb) 1)"
      using d m by (simp add: A_defs)
    moreover have "set (array_owned ?h (dpb_fs_ilref ?dpb) 1) \<inter> set A3 = {}"
      using d m by (auto simp: A_defs)
    ultimately show ?thesis
      using m free_slots_array_rel[of ?h "dpb_fs_ilref ?dpb" 1 A3 b] by (simp add: A4_def)
  qed
  have n4: "A4 = A3" if "\<not> MVC_EXTENSION_ENABLE b"
    using that by (simp add: A4_def)
  have s5: "free_frame_store b (vid_last_out_fs ?vid) (release A4 ?h) = Some (release A5 ?h)"
  proof -
    have "valid_fs ?h (vid_last_out_fs ?vid)" using v by (simp add: dpb_valid_def)
    moreover have "set ?L5 \<inter> set A4 = {}" using d by (auto simp: A_defs)
    ultimately show ?thesis unfolding A5_def by (rule free_frame_store_rel)
  qed
  have n5: "A5 = A4" if "vid_last_out_fs ?vid = None"
    using that by (simp add: owned_fs_def A5_def)
  have s5': "(if vid_conceal_mode ?vid \<noteq> 0 \<or> vid_last_out_fs ?vid \<noteq> None
              then free_frame_store b (vid_last_out_fs ?vid) (release A4 ?h)
              else Some (release A4 ?h)) = Some (release A5 ?h)"
    using s5 n5 by auto
  have s6: "(case vid_no_reference_picture ?vid of
               None \<Rightarrow> Some (?vid, release A5 ?h)
             | Some p \<Rightarrow> do {
                 h \<leftarrow> free_storable_picture b (Some p) (release A5 ?h);
                 Some (?vid\<lparr>vid_no_reference_picture := None\<rparr>, h)
               })
            = Some (?vid\<lparr>vid_no_reference_picture := None\<rparr>, release A6 ?h)"
  proof (cases "vid_no_reference_picture ?vid")
    case None
    then show ?thesis
      by (simp add: A6_def opt_addr_def vid_no_reference_picture_None_upd)
  next
    case (Some p)
    have "is_picture ?h p" using v Some by (simp add: dpb_valid_def opt_addr_def)
    moreover have "p \<notin> set A5" using d Some by (auto simp: opt_addr_def A6_def)
    ultimately show ?thesis
      using Some by (simp add: free_storable_picture_rel opt_addr_def A6_def)
  qed
  show ?thesis
  proof (cases "MVC_EXTENSION_ENABLE b")
    case True
    show ?thesis
      unfolding free_dpb_def after_free_dpb_def all
      using pv True s5 n5 s6
      by (auto simp: s1 s2 s3 s4[OF True] Let_def simp del: One_nat_def)
  next
    case False
    show ?thesis
      unfolding free_dpb_def after_free_dpb_def all
      using pv False s5 n5 s6
      by (auto simp: s1 s2 s3 n4[OF False] Let_def)
  qed
qed

subsection \<open>The pool that init_dpb builds\<close>

text \<open>
  The loop of \<open>init_dpb\<close> after \<open>m\<close> turns has built \<open>pool_heap\<close>; the blocks behind it touch
  only what they allocate (and \<open>fs_ilref\<close>). \<open>init_dpb_fresh\<close> is what \<open>init_dpb\<close> returns on a
  buffer whose \<open>init_done\<close> is 0.
\<close>

lemma pool_slots_Suc:
  assumes "m < n"
  shows "(pool_slots k m n)[m := Some (k + m)] = pool_slots k (Suc m) n"
proof -
  obtain d where d: "n - m = Suc d" using assms by (cases "n - m") auto
  then have d': "n - Suc m = d" by simp
  show ?thesis
    by (simp add: pool_slots_def list_update_append d d')
qed

lemma length_pool_slots [simp]: "m \<le> n \<Longrightarrow> length (pool_slots k m n) = n"
  by (simp add: pool_slots_def)

lemma pool_slots_nth: "i < m \<Longrightarrow> m \<le> n \<Longrightarrow> pool_slots k m n ! i = Some (k + i)"
  by (simp add: pool_slots_def nth_append)

lemma replicate_update_same [simp]: "(replicate n x)[m := x] = replicate n x"
  by (induction n arbitrary: m) (auto split: nat.splits)

lemma init_dpb_slot_step:
  assumes fs: "fs < brk h" "fr < brk h" "fl < brk h" "fs \<noteq> fr" "fs \<noteq> fl" "fr \<noteq> fl"
    and r: "cells h fr = Some (PA (replicate n None))" "cells h fl = Some (PA (replicate n None))"
    and m: "m < n"
  shows "init_dpb_slot b (Some fs) (Some fr) (Some fl) m (pool_heap b h fs m n)
           = Some (pool_heap b h fs (Suc m) n)"
proof -
  have ne: "fr \<noteq> brk h + m" "fl \<noteq> brk h + m" "fs \<noteq> brk h + m"
    using fs by simp_all
  have len: "m < length (pool_slots (brk h) m n)" using m by simp
  have nth: "pool_slots (brk h) (Suc m) n ! m = Some (brk h + m)"
    using m by (simp add: pool_slots_nth)
  show ?thesis
    using fs r m ne len nth
    apply (simp add: init_dpb_slot_def alloc_frame_store_def c_calloc_def write_pa_def
        update_slot_def read_pa_def read_fs_def write_fs_def pool_heap_def Let_def
        pool_slots_Suc init_FrameStore_def zero_FrameStore_def)
    apply (auto simp: fun_eq_iff init_FrameStore_def zero_FrameStore_def)
    done
qed

lemma pool_heap_0:
  assumes "cells h fs = Some (PA (replicate n None))"
  shows "pool_heap b h fs 0 n = h"
  using assms by (intro heap_eqI) (auto simp: pool_heap_def pool_slots_def)

lemma init_dpb_loop:
  assumes fs: "fs < brk h" "fr < brk h" "fl < brk h" "fs \<noteq> fr" "fs \<noteq> fl" "fr \<noteq> fl"
    and r: "cells h fs = Some (PA (replicate n None))"
      "cells h fr = Some (PA (replicate n None))" "cells h fl = Some (PA (replicate n None))"
    and m: "m \<le> n"
  shows "for_upto m (init_dpb_slot b (Some fs) (Some fr) (Some fl)) h
           = Some (pool_heap b h fs m n)"
  using m
proof (induction m)
  case 0
  show ?case using pool_heap_0[OF r(1)] by simp
next
  case (Suc m)
  then have "for_upto m (init_dpb_slot b (Some fs) (Some fr) (Some fl)) h
           = Some (pool_heap b h fs m n)" by simp
  moreover have "init_dpb_slot b (Some fs) (Some fr) (Some fl) m (pool_heap b h fs m n)
           = Some (pool_heap b h fs (Suc m) n)"
    using Suc.prems by (intro init_dpb_slot_step fs r) simp
  ultimately show ?case by simp
qed

lemma pool_slots_full: "pool_slots k n n = map (\<lambda>i. Some (k + i)) [0..<n]"
  by (simp add: pool_slots_def)

lemma init_dpb_pool_nomvc:
  assumes m: "\<not> MVC_EXTENSION_ENABLE b" and n_def: "n = unat (dpb_size dpb)"
  shows "\<exists>h'. init_dpb_pool b type dpb h = Some (pool_dpb b dpb h, h')
           \<and> cells h' (brk h) = Some (PA (map (\<lambda>i. Some (pool_base b h + i)) [0..<n]))
           \<and> (\<forall>i<n. cells h' (pool_base b h + i) = Some (FS (init_FrameStore b)))
           \<and> pool_base b h + n \<le> brk h'
           \<and> (\<forall>a<brk h. cells h' a = cells h a)"
proof -
  let ?rep = "PA (replicate n None)"
  let ?h1 = "h\<lparr>cells := (cells h)(brk h \<mapsto> ?rep, Suc (brk h) \<mapsto> ?rep,
                                      Suc (Suc (brk h)) \<mapsto> ?rep),
               brk := Suc (Suc (Suc (brk h)))\<rparr>"
  have lp: "for_upto n (init_dpb_slot b (Some (brk h)) (Some (Suc (brk h)))
                          (Some (Suc (Suc (brk h))))) ?h1
          = Some (pool_heap b ?h1 (brk h) n n)"
    by (rule init_dpb_loop) simp_all
  have "init_dpb_pool b type dpb h = Some (pool_dpb b dpb h, pool_heap b ?h1 (brk h) n n)"
    using m lp
    by (simp add: init_dpb_pool_def c_calloc_def Let_def pool_dpb_def n_def)
  then show ?thesis
    using m by (simp add: pool_heap_def pool_slots_full pool_base_def)
qed

lemma init_dpb_pool_mvc:
  assumes m: "MVC_EXTENSION_ENABLE b" and n_def: "n = unat (dpb_size dpb)"
  shows "\<exists>h'. init_dpb_pool b type dpb h = Some (pool_dpb b dpb h, h')
           \<and> cells h' (brk h) = Some (PA (map (\<lambda>i. Some (pool_base b h + i)) [0..<n]))
           \<and> (\<forall>i<n. cells h' (pool_base b h + i) = Some (FS (init_FrameStore b)))
           \<and> pool_base b h + n \<le> brk h'
           \<and> (\<forall>a<brk h. cells h' a = cells h a)"
proof -
  let ?rep = "PA (replicate n None)"
  let ?h1 = "h\<lparr>cells := (cells h)(brk h \<mapsto> ?rep, Suc (brk h) \<mapsto> ?rep,
                                      Suc (Suc (brk h)) \<mapsto> ?rep,
                                      Suc (Suc (Suc (brk h))) \<mapsto> PA [None]),
               brk := Suc (Suc (Suc (Suc (brk h))))\<rparr>"
  have lp: "for_upto n (init_dpb_slot b (Some (brk h)) (Some (Suc (brk h)))
                          (Some (Suc (Suc (brk h))))) ?h1
          = Some (pool_heap b ?h1 (brk h) n n)"
    by (rule init_dpb_loop) simp_all
  show ?thesis
  proof (cases "type = 2")
    case True
    show ?thesis
      using m lp True
      by (simp add: init_dpb_pool_def c_calloc_def Let_def pool_dpb_def n_def
          alloc_frame_store_def write_pa_def update_slot_def read_pa_def read_fs_def
          write_fs_def pool_heap_def pool_slots_full pool_base_def)
  next
    case False
    show ?thesis
      using m lp False
      by (simp add: init_dpb_pool_def c_calloc_def Let_def pool_dpb_def n_def
          write_pa_def pool_heap_def pool_slots_full pool_base_def)
  qed
qed

lemma init_dpb_pool_result:
  assumes "n = unat (dpb_size dpb)"
  shows "\<exists>h'. init_dpb_pool b type dpb h = Some (pool_dpb b dpb h, h')
           \<and> cells h' (brk h) = Some (PA (map (\<lambda>i. Some (pool_base b h + i)) [0..<n]))
           \<and> (\<forall>i<n. cells h' (pool_base b h + i) = Some (FS (init_FrameStore b)))
           \<and> pool_base b h + n \<le> brk h'
           \<and> (\<forall>a<brk h. cells h' a = cells h a)"
  using init_dpb_pool_mvc[OF _ assms] init_dpb_pool_nomvc[OF _ assms]
  by (cases "MVC_EXTENSION_ENABLE b") blast+

lemma init_no_reference_picture_result:
  assumes "vid_no_reference_picture vid = None \<longrightarrow> sentinel_sizes_fit vid"
  shows "\<exists>vid' h'. init_no_reference_picture b vid h = Some (vid', h')
      \<and> (\<forall>a<brk h. cells h' a = cells h a) \<and> brk h \<le> brk h'
      \<and> vid' = vid\<lparr>vid_no_reference_picture := vid_no_reference_picture vid'\<rparr>
      \<and> (case vid_no_reference_picture vid of
            Some p \<Rightarrow> vid_no_reference_picture vid' = Some p
          | None \<Rightarrow>
              vid_no_reference_picture vid' = Some (brk h)
              \<and> (\<exists>s. cells h' (brk h) = Some (SP s) \<and> s_frame s = Some (brk h)
                    \<and> s_top_field s = Some (brk h) \<and> s_bottom_field s = Some (brk h))
              \<and> brk h < brk h')"
proof (cases "vid_no_reference_picture vid")
  case (Some p)
  then show ?thesis by (simp add: init_no_reference_picture_def)
next
  case None
  then have "picture_sizes_fit vid FRAME (vid_width vid) (vid_height vid)
               (vid_width_cr vid) (vid_height_cr vid)"
    using assms by (simp add: sentinel_sizes_fit_def)
  then obtain s where s: "alloc_storable_picture b vid FRAME (vid_width vid) (vid_height vid)
                         (vid_width_cr vid) (vid_height_cr vid) 1 h = Some (c_calloc (SP s) h)"
    using alloc_storable_picture_result by blast
  show ?thesis
    using None
    by (simp add: init_no_reference_picture_def s c_calloc_def read_sp_def write_sp_def)
qed

lemma init_last_out_fs_result:
  "\<exists>vid' h'. init_last_out_fs vid h = (vid', h')
      \<and> (\<forall>a<brk h. cells h' a = cells h a)
      \<and> vid_no_reference_picture vid' = vid_no_reference_picture vid
      \<and> vid_active_sps vid' = vid_active_sps vid"
  by (simp add: init_last_out_fs_def alloc_frame_store_def c_calloc_def)

lemma init_dpb_fresh:
  assumes fresh: "dpb_init_done (st_dpb st) = 0"
    and g: "getDpbSize b (st_vid st) (vid_active_sps (st_vid st)) (st_stderr st) = Some (cap, err)"
    and r: "INT_MIN \<le> cap + dpb_plus (st_vid st) type" "cap + dpb_plus (st_vid st) type \<le> INT_MAX"
    and sf: "vid_no_reference_picture (st_vid st) = None \<longrightarrow> sentinel_sizes_fit (st_vid st)"
  shows "\<exists>st'. init_dpb b st type = Some st'
      \<and> dpb_size (st_dpb st') = word_of_int (cap + dpb_plus (st_vid st) type)
      \<and> dpb_used_size (st_dpb st') = 0
      \<and> dpb_ref_frames_in_buffer (st_dpb st') = 0
      \<and> dpb_ltref_frames_in_buffer (st_dpb st') = 0
      \<and> dpb_last_output_poc (st_dpb st') = INT_MIN
      \<and> dpb_init_done (st_dpb st') = 1
      \<and> dpb_fs (st_dpb st') = Some (brk (st_heap st))
      \<and> cells (st_heap st') (brk (st_heap st)) =
          Some (PA (map (\<lambda>i. Some (pool_base b (st_heap st) + i))
                      [0..<unat (dpb_size (st_dpb st'))]))
      \<and> (\<forall>i<unat (dpb_size (st_dpb st')).
            cells (st_heap st') (pool_base b (st_heap st) + i) = Some (FS (init_FrameStore b)))
      \<and> (\<forall>a<brk (st_heap st). cells (st_heap st') a = cells (st_heap st) a)
      \<and> (case vid_no_reference_picture (st_vid st) of
            Some p \<Rightarrow> vid_no_reference_picture (st_vid st') = Some p
          | None \<Rightarrow>
              (\<exists>p s. vid_no_reference_picture (st_vid st') = Some p
                 \<and> brk (st_heap st) \<le> p
                 \<and> cells (st_heap st') p = Some (SP s) \<and> s_frame s = Some p
                 \<and> s_top_field s = Some p \<and> s_bottom_field s = Some p))
      \<and> st_stderr st' =
          (if dpb_size_too_small b (vid_active_sps (st_vid st)) (st_dpb st')
           then error too_small_message 1000 err else err)
      \<and> vid_active_sps (st_vid st') = vid_active_sps (st_vid st)"
proof -
  let ?h = "st_heap st"
  let ?sum = "cap + dpb_plus (st_vid st) type"
  let ?dpb0 = "(st_dpb st)\<lparr>dpb_p_Vid := True, dpb_size := word_of_int ?sum,
                 dpb_num_ref_frames := sint (sps_num_ref_frames (vid_active_sps (st_vid st))),
                 dpb_used_size := 0, dpb_last_picture := None,
                 dpb_ref_frames_in_buffer := 0, dpb_ltref_frames_in_buffer := 0\<rparr>"
  let ?n = "unat (dpb_size ?dpb0)"
  obtain h1 where h1: "init_dpb_pool b type ?dpb0 ?h = Some (pool_dpb b ?dpb0 ?h, h1)"
      "cells h1 (brk ?h) = Some (PA (map (\<lambda>i. Some (pool_base b ?h + i)) [0..<?n]))"
      "\<forall>i<?n. cells h1 (pool_base b ?h + i) = Some (FS (init_FrameStore b))"
      "pool_base b ?h + ?n \<le> brk h1"
      "\<forall>a<brk ?h. cells h1 a = cells ?h a"
    using init_dpb_pool_result[of ?n ?dpb0 b type ?h] by auto
  have b1: "brk ?h < brk h1" using h1(4) by (simp add: pool_base_def split: if_splits)
  obtain vid2 h2 where h2: "init_no_reference_picture b (st_vid st) h1 = Some (vid2, h2)"
      "\<forall>a<brk h1. cells h2 a = cells h1 a" "brk h1 \<le> brk h2"
      "vid2 = (st_vid st)\<lparr>vid_no_reference_picture := vid_no_reference_picture vid2\<rparr>"
      "case vid_no_reference_picture (st_vid st) of
            Some p \<Rightarrow> vid_no_reference_picture vid2 = Some p
          | None \<Rightarrow>
              vid_no_reference_picture vid2 = Some (brk h1)
              \<and> (\<exists>s. cells h2 (brk h1) = Some (SP s) \<and> s_frame s = Some (brk h1)
                    \<and> s_top_field s = Some (brk h1) \<and> s_bottom_field s = Some (brk h1))
              \<and> brk h1 < brk h2"
    using init_no_reference_picture_result[OF sf, of b h1] by blast
  obtain vid3 h3 where h3: "init_last_out_fs (vid2\<lparr>vid_last_has_mmco_5 := 0\<rparr>) h2 = (vid3, h3)"
      "\<forall>a<brk h2. cells h3 a = cells h2 a"
      "vid_no_reference_picture vid3 = vid_no_reference_picture vid2"
      "vid_active_sps vid3 = vid_active_sps vid2"
    using init_last_out_fs_result[of "vid2\<lparr>vid_last_has_mmco_5 := 0\<rparr>" h2] by auto
  let ?dpb' = "(if MVC_EXTENSION_ENABLE b
               then (pool_dpb b ?dpb0 ?h)\<lparr>dpb_last_output_poc := INT_MIN,
                       dpb_last_output_view_id := - 1, dpb_init_done := 1\<rparr>
               else (pool_dpb b ?dpb0 ?h)\<lparr>dpb_last_output_poc := INT_MIN, dpb_init_done := 1\<rparr>)"
  let ?err' = "if dpb_size_too_small b (vid_active_sps (st_vid st)) ?dpb'
           then error too_small_message 1000 err else err"
  let ?st' = "st\<lparr>st_vid := vid3, st_dpb := ?dpb', st_heap := h3, st_stderr := ?err'\<rparr>"
  have sz: "dpb_size ?dpb' = word_of_int ?sum"
    by (simp add: pool_dpb_def)
  have ts: "dpb_size_too_small b sps ?dpb' = dpb_size_too_small b sps ?dpb0" for sps
    by (simp add: dpb_size_too_small_def pool_dpb_def)
  have run: "init_dpb b st type = Some ?st'"
    using fresh g r h1(1) h2(1) h3(1)
    by (simp add: init_dpb_def Let_def dpb_size_too_small_def pool_dpb_def)
  have c0: "cells h3 a = cells h1 a" if "a < brk h1" for a
    using that h2(2) h2(3) h3(2) by simp
  have p1: "cells h3 (brk ?h) = Some (PA (map (\<lambda>i. Some (pool_base b ?h + i)) [0..<?n]))"
    using c0[OF b1] h1(2) by simp
  have p2: "\<forall>i<?n. cells h3 (pool_base b ?h + i) = Some (FS (init_FrameStore b))"
    using c0 h1(3) h1(4) by simp
  have p3: "\<forall>a<brk ?h. cells h3 a = cells ?h a"
    using c0 b1 h1(5) by simp
  have p4: "case vid_no_reference_picture (st_vid st) of
            Some p \<Rightarrow> vid_no_reference_picture vid3 = Some p
          | None \<Rightarrow>
              (\<exists>p s. vid_no_reference_picture vid3 = Some p
                 \<and> brk ?h \<le> p
                 \<and> cells h3 p = Some (SP s) \<and> s_frame s = Some p
                 \<and> s_top_field s = Some p \<and> s_bottom_field s = Some p)"
  proof (cases "vid_no_reference_picture (st_vid st)")
    case (Some p)
    then show ?thesis using h2(5) h3(3) by simp
  next
    case None
    then have n: "vid_no_reference_picture vid2 = Some (brk h1)" "brk h1 < brk h2"
        "\<exists>s. cells h2 (brk h1) = Some (SP s) \<and> s_frame s = Some (brk h1)
                    \<and> s_top_field s = Some (brk h1) \<and> s_bottom_field s = Some (brk h1)"
      using h2(5) by simp_all
    have "cells h3 (brk h1) = cells h2 (brk h1)" using h3(2) n(2) by simp
    then show ?thesis
      using None n h3(3) b1 by auto
  qed
  define st' where "st' = ?st'"
  have f: "st_dpb st' = ?dpb'" "st_heap st' = h3" "st_vid st' = vid3" "st_stderr st' = ?err'"
    by (simp_all add: st'_def)
  have sz': "dpb_size (st_dpb st') = word_of_int ?sum"
    by (simp add: f pool_dpb_def)
  have n': "unat (dpb_size (st_dpb st')) = ?n"
    by (simp add: sz')
  show ?thesis
  proof (intro exI[of _ st'] conjI)
    show "init_dpb b st type = Some st'" using run by (simp add: st'_def)
    show "dpb_size (st_dpb st') = word_of_int ?sum" by (rule sz')
    show "dpb_used_size (st_dpb st') = 0" by (simp add: f pool_dpb_def)
    show "dpb_ref_frames_in_buffer (st_dpb st') = 0" by (simp add: f pool_dpb_def)
    show "dpb_ltref_frames_in_buffer (st_dpb st') = 0" by (simp add: f pool_dpb_def)
    show "dpb_last_output_poc (st_dpb st') = INT_MIN" by (simp add: f pool_dpb_def)
    show "dpb_init_done (st_dpb st') = 1" by (simp add: f pool_dpb_def)
    show "dpb_fs (st_dpb st') = Some (brk ?h)" by (simp add: f pool_dpb_def)
    show "cells (st_heap st') (brk ?h) =
          Some (PA (map (\<lambda>i. Some (pool_base b ?h + i)) [0..<unat (dpb_size (st_dpb st'))]))"
      unfolding n' using p1 by (simp add: f)
    show "\<forall>i<unat (dpb_size (st_dpb st')).
            cells (st_heap st') (pool_base b ?h + i) = Some (FS (init_FrameStore b))"
      unfolding n' using p2 by (simp add: f)
    show "\<forall>a<brk ?h. cells (st_heap st') a = cells ?h a"
      using p3 by (simp add: f)
    show "case vid_no_reference_picture (st_vid st) of
            Some p \<Rightarrow> vid_no_reference_picture (st_vid st') = Some p
          | None \<Rightarrow>
              (\<exists>p s. vid_no_reference_picture (st_vid st') = Some p
                 \<and> brk ?h \<le> p
                 \<and> cells (st_heap st') p = Some (SP s) \<and> s_frame s = Some p
                 \<and> s_top_field s = Some p \<and> s_bottom_field s = Some p)"
      unfolding f(2) f(3) by (rule p4)
    show "st_stderr st' =
          (if dpb_size_too_small b (vid_active_sps (st_vid st)) (st_dpb st')
           then error too_small_message 1000 err else err)"
      by (simp add: f)
    have "vid_active_sps vid2 = vid_active_sps (st_vid st)"
      by (subst h2(4)) simp
    then show "vid_active_sps (st_vid st') = vid_active_sps (st_vid st)"
      using h3(4) by (simp add: f)
  qed
qed

subsection \<open>init_dpb on a buffer in use\<close>





lemma dpb_plus_example: "type \<noteq> 2 \<Longrightarrow> dpb_plus example_vid type = 1"
  by (simp add: dpb_plus_def example_vid_def default_dpb_plus_def Map_def)

lemma active_sps_example: "vid_active_sps example_vid = example_sps"
  by (simp add: example_vid_def)

lemma sentinel_sizes_fit_example: "sentinel_sizes_fit example_vid"
  by (simp add: sentinel_sizes_fit_def picture_sizes_fit_def fits_int_def picture_height_def
      shr_def BLOCK_SHIFT_def INT_MIN_def INT_MAX_def example_vid_def)

subsection \<open>What free_dpb releases\<close>

text \<open>A frame store in one of the first \<open>n\<close> slots, and what is attached to it, is owned.\<close>

lemma cells_release_owned: "a \<in> set as \<Longrightarrow> cells (release as h) a = None"
  by simp

lemma slot_owned:
  assumes i: "i < n"
    and r: "read_pa h arr i = Some (Some a)"
    and x: "read_fs h a = Some x"
  shows "set (attached x @ [a]) \<subseteq> set (array_owned h arr n)"
proof -
  obtain ar xs where ar: "arr = Some ar" "cells h ar = Some (PA xs)" "i < length xs"
      "xs ! i = Some a"
    using r by (auto simp: read_pa_def split: option.splits obj.splits if_splits)
  have cx: "cells h a = Some (FS x)"
    using x by (auto simp: read_fs_def split: option.splits obj.splits)
  have "Some a \<in> set (take n xs)"
    using ar(3,4) i by (auto simp: in_set_conv_nth intro!: exI[of _ i])
  then have "set (owned_fs h (Some a)) \<subseteq> set (concat (map (owned_fs h) (take n xs)))"
    by auto
  then show ?thesis
    using ar cx by (auto simp: array_owned_def array_slots_def owned_fs_def)
qed

lemma dpb_valid_null:
  assumes "dpb_p_Vid (st_dpb st)" "dpb_fs (st_dpb st) = None" "dpb_fs_ref (st_dpb st) = None"
    "dpb_fs_ltref (st_dpb st) = None" "dpb_fs_ilref (st_dpb st) = None"
    "vid_last_out_fs (st_vid st) = None" "vid_no_reference_picture (st_vid st) = None"
  shows "dpb_valid b st" "dpb_owned b st = []"
  using assms
  by (simp_all add: dpb_valid_def dpb_owned_def valid_array_def allocated_def valid_fs_def
      opt_addr_def array_owned_def array_slots_def owned_fs_def)

text \<open>
  On a buffer whose pointers are valid and own what they point to, \<open>free_dpb\<close> returns,
  and afterwards every frame store of the pool and every picture attached to one is
  released, the picture for missing references is released and its pointer is null, and
  \<open>init_done\<close> is 0. On a buffer whose pointers are all null but \<open>p_Dpb->p_Vid\<close>, \<open>free_dpb\<close>
  returns and the heap is as it was.
\<close>

lemma free_dpb_valid_releases:
  "(dpb_valid b st \<longrightarrow>
      (\<exists>st'. free_dpb b st = Some st'
         \<and> (\<forall>i<unat (dpb_size (st_dpb st)). \<forall>a x.
               read_pa (st_heap st) (dpb_fs (st_dpb st)) i = Some (Some a)
               \<and> read_fs (st_heap st) a = Some x
               \<longrightarrow> cells (st_heap st') a = None
                   \<and> (\<forall>p\<in>set (attached x). cells (st_heap st') p = None))
         \<and> (\<forall>p. vid_no_reference_picture (st_vid st) = Some p \<longrightarrow> cells (st_heap st') p = None)
         \<and> vid_no_reference_picture (st_vid st') = None
         \<and> dpb_fs (st_dpb st') = None
         \<and> dpb_init_done (st_dpb st') = 0))
   \<and> (dpb_p_Vid (st_dpb st) \<and> dpb_fs (st_dpb st) = None \<and> dpb_fs_ref (st_dpb st) = None
        \<and> dpb_fs_ltref (st_dpb st) = None \<and> dpb_fs_ilref (st_dpb st) = None
        \<and> vid_last_out_fs (st_vid st) = None \<and> vid_no_reference_picture (st_vid st) = None
      \<longrightarrow> (\<exists>st'. free_dpb b st = Some st' \<and> st_heap st' = st_heap st
                  \<and> dpb_init_done (st_dpb st') = 0))"
proof (intro conjI impI)
  assume v: "dpb_valid b st"
  let ?st' = "after_free_dpb b st"
  have run: "free_dpb b st = Some ?st'" using v by (rule free_dpb_closed)
  have hp: "st_heap ?st' = release (dpb_owned b st) (st_heap st)"
    by (simp add: after_free_dpb_def)
  have pool: "cells (st_heap ?st') a = None \<and> (\<forall>p\<in>set (attached x). cells (st_heap ?st') p = None)"
    if "i < unat (dpb_size (st_dpb st))"
      "read_pa (st_heap st) (dpb_fs (st_dpb st)) i = Some (Some a)"
      "read_fs (st_heap st) a = Some x" for i a x
  proof -
    have "set (attached x @ [a]) \<subseteq> set (dpb_owned b st)"
      using slot_owned[OF that] by (auto simp: dpb_owned_def)
    then show ?thesis unfolding hp by auto
  qed
  have sent: "cells (st_heap ?st') p = None" if "vid_no_reference_picture (st_vid st) = Some p" for p
    unfolding hp using that by (simp add: dpb_owned_def opt_addr_def)
  show "\<exists>st'. free_dpb b st = Some st'
         \<and> (\<forall>i<unat (dpb_size (st_dpb st)). \<forall>a x.
               read_pa (st_heap st) (dpb_fs (st_dpb st)) i = Some (Some a)
               \<and> read_fs (st_heap st) a = Some x
               \<longrightarrow> cells (st_heap st') a = None
                   \<and> (\<forall>p\<in>set (attached x). cells (st_heap st') p = None))
         \<and> (\<forall>p. vid_no_reference_picture (st_vid st) = Some p \<longrightarrow> cells (st_heap st') p = None)
         \<and> vid_no_reference_picture (st_vid st') = None
         \<and> dpb_fs (st_dpb st') = None
         \<and> dpb_init_done (st_dpb st') = 0"
  proof (intro exI[of _ ?st'] conjI allI impI)
    show "free_dpb b st = Some ?st'" by (rule run)
    show "vid_no_reference_picture (st_vid ?st') = None" by (simp add: after_free_dpb_def)
    show "dpb_fs (st_dpb ?st') = None" by (simp add: after_free_dpb_def)
    show "dpb_init_done (st_dpb ?st') = 0" by (simp add: after_free_dpb_def)
  qed (use pool sent in blast)+
next
  assume n: "dpb_p_Vid (st_dpb st) \<and> dpb_fs (st_dpb st) = None \<and> dpb_fs_ref (st_dpb st) = None
        \<and> dpb_fs_ltref (st_dpb st) = None \<and> dpb_fs_ilref (st_dpb st) = None
        \<and> vid_last_out_fs (st_vid st) = None \<and> vid_no_reference_picture (st_vid st) = None"
  have v: "dpb_valid b st" and o: "dpb_owned b st = []"
    using n dpb_valid_null[of st b] by simp_all
  have run: "free_dpb b st = Some (after_free_dpb b st)" using v by (rule free_dpb_closed)
  show "\<exists>st'. free_dpb b st = Some st' \<and> st_heap st' = st_heap st
                  \<and> dpb_init_done (st_dpb st') = 0"
    using run o by (simp add: after_free_dpb_def)
qed

subsection \<open>A pointer to a cell that is released\<close>











subsection \<open>The buffer that the first init_dpb leaves\<close>











section \<open>The claims about getDpbSize\<close>

text \<open>
  C1, as amended. For a parameter set with \<open>vui_parameters_present_flag\<close> and
  \<open>bitstream_restriction_flag\<close> set and a level other than 0: when
  \<open>max_dec_frame_buffering\<close>, read as an \<open>int\<close>, is not above the bound computed from level
  and picture size (what \<open>getDpbSize\<close> returns for the same parameter set without the
  VUI), \<open>getDpbSize\<close> returns that value, raised to 1 when it is below 1, and prints
  nothing more. For level 0 it returns 16 whatever the VUI says.
\<close>

theorem getDpbSize_vui_override:
  "(vui_override active_sps \<and> sps_level_idc active_sps \<noteq> 0
      \<and> getDpbSize b p_Vid (without_vui active_sps) stderr = Some (bound, stderr')
      \<and> sint (vui_max_dec_frame_buffering (sps_vui_seq_parameters active_sps)) \<le> bound
    \<longrightarrow> getDpbSize b p_Vid active_sps stderr =
          Some (imax 1 (sint (vui_max_dec_frame_buffering (sps_vui_seq_parameters active_sps))),
                stderr'))
   \<and> (sps_level_idc active_sps = 0 \<longrightarrow> getDpbSize b p_Vid active_sps stderr = Some (16, stderr))"
  using getDpbSize_vui [of b p_Vid active_sps stderr bound stderr']
    getDpbSize_level0 [of active_sps b p_Vid stderr]
  by auto

theorem getDpbSize_vui_override_witness:
  "vui_override (with_vui example_sps 0) \<and> sps_level_idc (with_vui example_sps 0) \<noteq> 0
   \<and> getDpbSize example_build example_vid (without_vui (with_vui example_sps 0)) [] = Some (2, [])
   \<and> sint (vui_max_dec_frame_buffering (sps_vui_seq_parameters (with_vui example_sps 0))) \<le> 2
   \<and> getDpbSize example_build example_vid (with_vui example_sps 0) [] = Some (1, [])
   \<and> sps_level_idc (example_sps\<lparr>sps_level_idc := 0\<rparr>) = 0
   \<and> getDpbSize example_build example_vid (example_sps\<lparr>sps_level_idc := 0\<rparr>) [] = Some (16, [])"
  using getDpbSize_vui_override [of "with_vui example_sps 0" example_build example_vid "[]" 2 "[]"]
    getDpbSize_vui_override [of "example_sps\<lparr>sps_level_idc := 0\<rparr>" example_build example_vid "[]"]
  by (simp add: getDpbSize_eval)

text \<open>
  C1 as stated fails at level 0: the VUI asks for 3, which is within every bound, and
  \<open>getDpbSize\<close> returns 16.
\<close>

theorem getDpbSize_vui_level0_counterexample:
  "vui_override (with_vui (example_sps\<lparr>sps_level_idc := 0\<rparr>) 3)
   \<and> sint (vui_max_dec_frame_buffering
             (sps_vui_seq_parameters (with_vui (example_sps\<lparr>sps_level_idc := 0\<rparr>) 3))) = 3
   \<and> getDpbSize example_build example_vid (with_vui (example_sps\<lparr>sps_level_idc := 0\<rparr>) 3) []
       = Some (16, [])"
  by (simp add: getDpbSize_eval)

text \<open>
  C2, at the input where the code leaves it: for the level code 15, which the \<open>switch\<close> has
  no case for, \<open>getDpbSize\<close> prints "undefined level" and returns the capacity 0 to its
  caller.
\<close>

theorem getDpbSize_undefined_level_returns:
  "getDpbSize b example_vid (example_sps\<lparr>sps_level_idc := 15\<rparr>) stderr =
     Some (0, stderr @ [''undefined level''])"
  by (simp add: getDpbSize_eval)

text \<open>
  C3, as amended. For a single-view stream without a VUI override: at every valid pair of
  level and picture size \<open>getDpbSize\<close> returns a value from 1 to 16; and for a recognized
  level, a picture of more macroblocks never gets a larger value, as long as the number
  of macroblocks of the pictures is below \<open>2 ^ 32\<close>, so that the unsigned product of
  the code does not wrap.
\<close>

theorem getDpbSize_range_monotone:
  assumes "single_view b p_Vid" and "\<not> vui_override active_sps"
  shows "(valid_level_picture_size b active_sps \<longrightarrow>
            (\<exists>n. getDpbSize b p_Vid active_sps stderr = Some (n, stderr) \<and> 1 \<le> n \<and> n \<le> 16))
       \<and> (recognized_level b active_sps
            \<and> picture_size_in_mbs active_sps
                  \<le> picture_size_in_mbs (with_picture_size active_sps w h f)
            \<and> picture_size_in_mbs (with_picture_size active_sps w h f) < 2 ^ 32 \<longrightarrow>
            (\<exists>n n'. getDpbSize b p_Vid active_sps stderr = Some (n, stderr)
               \<and> getDpbSize b p_Vid (with_picture_size active_sps w h f) stderr = Some (n', stderr)
               \<and> n' \<le> n))"
  using getDpbSize_range [OF assms] getDpbSize_monotone [OF assms] by blast

theorem getDpbSize_range_monotone_witness:
  "single_view example_build example_vid \<and> \<not> vui_override example_sps
   \<and> valid_level_picture_size example_build example_sps
   \<and> recognized_level example_build example_sps
   \<and> picture_size_in_mbs example_sps = 8192
   \<and> picture_size_in_mbs (with_picture_size example_sps 127 127 1) = 16384
   \<and> getDpbSize example_build example_vid example_sps [] = Some (2, [])
   \<and> getDpbSize example_build example_vid (with_picture_size example_sps 127 127 1) []
       = Some (1, [])
   \<and> (\<exists>n. getDpbSize example_build example_vid example_sps [] = Some (n, []) \<and> 1 \<le> n \<and> n \<le> 16)
   \<and> (\<exists>n n'. getDpbSize example_build example_vid example_sps [] = Some (n, [])
         \<and> getDpbSize example_build example_vid (with_picture_size example_sps 127 127 1) []
             = Some (n', [])
         \<and> n' \<le> n)"
  using getDpbSize_range_monotone [of example_build example_vid example_sps "[]" 127 127 1]
  by (simp add: getDpbSize_eval)

text \<open>
  C3 as stated fails where the product of the code wraps. At level 3.1 the picture of 128
  by 64 macroblocks gets 2. The picture of 641 by 6700417 macroblocks has \<open>2 ^ 32 + 1\<close>
  macroblocks; the unsigned product of the code is 1, and the larger picture gets 16.
\<close>

theorem getDpbSize_monotone_wrap_counterexample:
  "single_view example_build example_vid \<and> \<not> vui_override example_sps
   \<and> recognized_level example_build example_sps
   \<and> picture_size_in_mbs example_sps = 8192
   \<and> picture_size_in_mbs (with_picture_size example_sps 640 6700416 1) = 4294967297
   \<and> pic_size_mb (with_picture_size example_sps 640 6700416 1) = 1
   \<and> getDpbSize example_build example_vid example_sps [] = Some (2, [])
   \<and> getDpbSize example_build example_vid (with_picture_size example_sps 640 6700416 1) []
       = Some (16, [])"
  by (simp add: getDpbSize_eval)

text \<open>
  C6, as amended. For a level that has a budget (a recognized level other than 0), a
  single-view stream and no VUI override, and a picture whose size in macroblocks is
  below \<open>2 ^ 31\<close>, so that it fits the \<open>int\<close> that holds it: \<open>getDpbSize\<close> returns the budget
  divided by width times height (doubled when \<open>frame_mbs_only_flag\<close> is 0), rounded down
  and clipped to 16.
\<close>

theorem getDpbSize_computation:
  assumes lvl: "level_size b active_sps = Some budget"
    and sv: "single_view b p_Vid"
    and nv: "\<not> vui_override active_sps"
    and nowrap: "spec_pic_size (unat (sps_pic_width_in_mbs_minus1 active_sps) + 1)
             (unat (sps_pic_height_in_map_units_minus1 active_sps) + 1)
             (sps_frame_mbs_only_flag active_sps \<noteq> 0) < 2 ^ 31"
  shows "getDpbSize b p_Vid active_sps stderr =
           Some (int (spec_capacity (nat budget)
                   (spec_pic_size (unat (sps_pic_width_in_mbs_minus1 active_sps) + 1)
                      (unat (sps_pic_height_in_map_units_minus1 active_sps) + 1)
                      (sps_frame_mbs_only_flag active_sps \<noteq> 0))), stderr)"
proof -
  let ?P = "spec_pic_size (unat (sps_pic_width_in_mbs_minus1 active_sps) + 1)
                      (unat (sps_pic_height_in_map_units_minus1 active_sps) + 1)
                      (sps_frame_mbs_only_flag active_sps \<noteq> 0)"
  have p: "pic_size_mb active_sps = int ?P" using nowrap by (rule pic_size_mb_nowrap)
  have pos: "0 < ?P" by (simp add: spec_pic_size_def)
  have bpos: "0 < budget" using level_size_pos[OF lvl] by simp
  have "getDpbSize b p_Vid active_sps stderr = Some (imin (budget div int ?P) 16, stderr)"
    using getDpbSize_plain[OF lvl sv nv] p pos by simp
  moreover have "budget div int ?P = int (nat budget div ?P)"
    using bpos by (simp add: zdiv_int)
  ultimately show ?thesis
    by (simp add: spec_capacity_def imin_def min_def)
qed

theorem getDpbSize_computation_witness:
  "level_size example_build (with_picture_size example_sps 119 33 0) = Some 18000
   \<and> single_view example_build example_vid
   \<and> \<not> vui_override (with_picture_size example_sps 119 33 0)
   \<and> spec_pic_size 120 34 False < 2 ^ 31
   \<and> spec_capacity 18000 (spec_pic_size 120 34 False) = 2
   \<and> getDpbSize example_build example_vid (with_picture_size example_sps 119 33 0) []
       = Some (2, [])"
  using getDpbSize_computation [of example_build "with_picture_size example_sps 119 33 0" 18000
      example_vid "[]"]
  by (simp add: getDpbSize_eval spec_pic_size_def spec_capacity_def)

text \<open>
  C6 as stated fails where the product does not fit: at level 3.1, for a picture of
  \<open>2 ^ 32 - 1\<close> by 1 macroblocks, the budget divided by the picture size and clipped is 0,
  and \<open>getDpbSize\<close>, which holds the picture size as the \<open>int\<close> -1, returns -18000.
\<close>

theorem getDpbSize_computation_wrap_counterexample:
  "level_size example_build (with_picture_size example_sps 4294967294 0 1) = Some 18000
   \<and> single_view example_build example_vid
   \<and> \<not> vui_override (with_picture_size example_sps 4294967294 0 1)
   \<and> picture_size_in_mbs (with_picture_size example_sps 4294967294 0 1) = 4294967295
   \<and> spec_capacity 18000 (spec_pic_size 4294967295 1 True) = 0
   \<and> pic_size_mb (with_picture_size example_sps 4294967294 0 1) = - 1
   \<and> getDpbSize example_build example_vid (with_picture_size example_sps 4294967294 0 1) []
       = Some (- 18000, [])"
  by (simp add: getDpbSize_eval spec_capacity_def)

section \<open>The claims about init_dpb and free_dpb\<close>

text \<open>
  C4, at an input where the code leaves it: level 31, 8192 macroblocks, the default
  adjustment and \<open>num_ref_frames\<close> = 4 (with \<open>max_dec_frame_buffering\<close> = 2 in the parameter
  set). Whatever \<open>MVC_EXTENSION_ENABLE\<close> is, \<open>init_dpb\<close> prints the message, returns, and
  leaves a buffer of 3 slots marked as initialised.
\<close>

theorem init_dpb_too_small_returns:
  "\<exists>st'. init_dpb b (with_active_sps example_state (example_sps\<lparr>sps_num_ref_frames := 4\<rparr>)) 1
           = Some st'
         \<and> dpb_size (st_dpb st') = 3
         \<and> sps_num_ref_frames (vid_active_sps (st_vid st')) = 4
         \<and> dpb_init_done (st_dpb st') = 1
         \<and> st_stderr st' = [too_small_message]"
proof -
  let ?st = "with_active_sps example_state (example_sps\<lparr>sps_num_ref_frames := 4\<rparr>)"
  have g: "getDpbSize b (st_vid ?st) (vid_active_sps (st_vid ?st)) (st_stderr ?st) = Some (2, [])"
    by (simp add: getDpbSize_eval example_state_def with_active_sps_def)
  have f: "dpb_init_done (st_dpb ?st) = 0"
    by (simp add: example_state_def zero_DecodedPictureBuffer_def with_active_sps_def)
  have p: "dpb_plus (st_vid ?st) 1 = 1"
    by (simp add: dpb_plus_def example_vid_def default_dpb_plus_def Map_def with_active_sps_def
        example_state_def)
  have a: "vid_active_sps (st_vid ?st) = example_sps\<lparr>sps_num_ref_frames := 4\<rparr>"
    by (simp add: with_active_sps_def)
  have s: "sentinel_sizes_fit (st_vid ?st)"
    using sentinel_sizes_fit_example
    by (simp add: sentinel_sizes_fit_def picture_sizes_fit_def with_active_sps_def
        example_state_def)
  obtain st' where st': "init_dpb b ?st 1 = Some st'" "dpb_size (st_dpb st') = 3"
      "dpb_init_done (st_dpb st') = 1"
      "st_stderr st' = (if dpb_size_too_small b (vid_active_sps (st_vid ?st)) (st_dpb st')
           then error too_small_message 1000 [] else [])"
      "vid_active_sps (st_vid st') = vid_active_sps (st_vid ?st)"
    using init_dpb_fresh[OF f g, of 1] p s by (auto simp: INT_MIN_def INT_MAX_def)
  have "dpb_size_too_small b (vid_active_sps (st_vid ?st)) (st_dpb st')"
    using st'(2) unfolding a by (simp add: dpb_size_too_small_def example_sps_def)
  then show ?thesis
    using st' unfolding a by (simp add: error_def)
qed

text \<open>
  C5. For level 31 and a frame picture of 8192 macroblocks without a VUI, \<open>getDpbSize\<close>
  returns 18000 div 8192 = 2, under the clip to 16; the adjustment configured by default
  for a buffer that is not the second layer is DPBPLUS0 = 1, and \<open>init_dpb\<close> on a buffer not
  yet initialised sets the size to 3.
\<close>

theorem init_dpb_level31_size:
  "pic_size_mb example_sps = 8192
   \<and> getDpbSize b example_vid example_sps stderr = Some (2, stderr)
   \<and> spec_capacity 18000 8192 = 2
   \<and> (type \<noteq> 2 \<and> st_vid st = example_vid \<and> dpb_init_done (st_dpb st) = 0 \<longrightarrow>
        dpb_plus (st_vid st) type = 1
        \<and> (\<exists>st'. init_dpb b st type = Some st' \<and> dpb_size (st_dpb st') = 3))"
proof -
  have "\<exists>st'. init_dpb b st type = Some st' \<and> dpb_size (st_dpb st') = 3"
    if h: "type \<noteq> 2" "st_vid st = example_vid" "dpb_init_done (st_dpb st) = 0"
  proof -
    have g: "getDpbSize b (st_vid st) (vid_active_sps (st_vid st)) (st_stderr st)
               = Some (2, st_stderr st)"
      using h(2) by (simp add: active_sps_example getDpbSize_example)
    have p: "dpb_plus (st_vid st) type = 1" using h by (simp add: dpb_plus_example)
    have s: "sentinel_sizes_fit (st_vid st)" using h(2) by (simp add: sentinel_sizes_fit_example)
    show ?thesis
      using init_dpb_fresh[OF h(3) g, of type] p s
      by (auto simp: INT_MIN_def INT_MAX_def)
  qed
  then show ?thesis
    by (simp add: pic_size_mb_example getDpbSize_example dpb_plus_example spec_capacity_def)
qed

theorem init_dpb_level31_size_witness:
  "(1::int) \<noteq> 2 \<and> st_vid example_state = example_vid
   \<and> dpb_init_done (st_dpb example_state) = 0
   \<and> getDpbSize example_build example_vid example_sps [] = Some (2, [])
   \<and> dpb_plus (st_vid example_state) 1 = 1
   \<and> (\<exists>st'. init_dpb example_build example_state 1 = Some st' \<and> dpb_size (st_dpb st') = 3)"
  using init_dpb_level31_size [of example_build "[]" 1 example_state]
  by (simp add: example_state_def zero_DecodedPictureBuffer_def)





section \<open>The claims about pictures and frame stores\<close>

text \<open>
  C9. \<open>alloc_storable_picture\<close> returns for the sizes that fit, and for no others.
  Whenever it returns, the picture is newly allocated. For \<open>TOP_FIELD\<close> and
  \<open>BOTTOM_FIELD\<close> its luma and chroma heights are the halves of the heights passed, and the
  planes, the motion array and the \<open>mb_field\<close> array get their sizes from the halved
  heights; for \<open>FRAME\<close> the heights are as passed. With \<open>separate_colour_plane_flag\<close> set
  there are three more motion arrays and \<open>mb_field\<close> arrays of the same size, otherwise
  none. \<open>frame\<close>, \<open>top_field\<close> and \<open>bottom_field\<close> are the pointer
  \<open>p_Vid->no_reference_picture\<close>.
\<close>

theorem alloc_storable_picture_sizes:
  "(picture_sizes_fit p_Vid structure size_x size_y size_x_cr size_y_cr \<longrightarrow>
      (\<exists>p h'. alloc_storable_picture b p_Vid structure size_x size_y size_x_cr size_y_cr
                  is_output h = Some (p, h')))
   \<and> (\<forall>p h'. alloc_storable_picture b p_Vid structure size_x size_y size_x_cr size_y_cr
                  is_output h = Some (p, h') \<longrightarrow>
        (let sy = picture_height structure size_y;
             sy_cr = picture_height structure size_y_cr;
             mv = Mem2Dmp (shr sy BLOCK_SHIFT) (shr size_x BLOCK_SHIFT);
             mb = \<lparr>mb_field = Some (Bytes (shr sy BLOCK_SHIFT * shr size_x BLOCK_SHIFT))\<rparr>
         in picture_sizes_fit p_Vid structure size_x size_y size_x_cr size_y_cr
            \<and> p = brk h
            \<and> (\<exists>s. read_sp h' p = Some s
                 \<and> s_structure s = structure
                 \<and> s_size_x s = size_x \<and> s_size_y s = sy
                 \<and> s_size_x_cr s = size_x_cr \<and> s_size_y_cr s = sy_cr
                 \<and> s_imgY s =
                     Some (Mem2Dpel_pad sy size_x (vid_iLumaPadY p_Vid) (vid_iLumaPadX p_Vid))
                 \<and> s_imgUV s =
                     (if sps_chroma_format_idc (vid_active_sps p_Vid) = YUV400 b then None
                      else Some (Mem3Dpel_pad 2 sy_cr size_x_cr
                                   (vid_iChromaPadY p_Vid) (vid_iChromaPadX p_Vid)))
                 \<and> s_mv_info s = Some mv
                 \<and> s_motion s = mb
                 \<and> s_JVmv_info s =
                     replicate MAX_PLANE
                       (if vid_separate_colour_plane_flag p_Vid = 0 then None else Some mv)
                 \<and> s_JVmotion s =
                     replicate MAX_PLANE
                       (if vid_separate_colour_plane_flag p_Vid = 0 then \<lparr>mb_field = None\<rparr>
                        else mb)
                 \<and> s_frame s = vid_no_reference_picture p_Vid
                 \<and> s_top_field s = vid_no_reference_picture p_Vid
                 \<and> s_bottom_field s = vid_no_reference_picture p_Vid)))"
proof (intro conjI impI allI)
  assume "picture_sizes_fit p_Vid structure size_x size_y size_x_cr size_y_cr"
  then obtain s where
    "alloc_storable_picture b p_Vid structure size_x size_y size_x_cr size_y_cr is_output h
       = Some (c_calloc (SP s) h)"
    using alloc_storable_picture_result by blast
  then show "\<exists>p h'. alloc_storable_picture b p_Vid structure size_x size_y size_x_cr size_y_cr
                  is_output h = Some (p, h')"
    by (simp add: c_calloc_def)
next
  fix p h'
  assume a: "alloc_storable_picture b p_Vid structure size_x size_y size_x_cr size_y_cr
                  is_output h = Some (p, h')"
  have fit: "picture_sizes_fit p_Vid structure size_x size_y size_x_cr size_y_cr"
    using a by (rule alloc_storable_picture_fits)
  show "let sy = picture_height structure size_y;
             sy_cr = picture_height structure size_y_cr;
             mv = Mem2Dmp (shr sy BLOCK_SHIFT) (shr size_x BLOCK_SHIFT);
             mb = \<lparr>mb_field = Some (Bytes (shr sy BLOCK_SHIFT * shr size_x BLOCK_SHIFT))\<rparr>
         in picture_sizes_fit p_Vid structure size_x size_y size_x_cr size_y_cr
            \<and> p = brk h
            \<and> (\<exists>s. read_sp h' p = Some s
                 \<and> s_structure s = structure
                 \<and> s_size_x s = size_x \<and> s_size_y s = sy
                 \<and> s_size_x_cr s = size_x_cr \<and> s_size_y_cr s = sy_cr
                 \<and> s_imgY s =
                     Some (Mem2Dpel_pad sy size_x (vid_iLumaPadY p_Vid) (vid_iLumaPadX p_Vid))
                 \<and> s_imgUV s =
                     (if sps_chroma_format_idc (vid_active_sps p_Vid) = YUV400 b then None
                      else Some (Mem3Dpel_pad 2 sy_cr size_x_cr
                                   (vid_iChromaPadY p_Vid) (vid_iChromaPadX p_Vid)))
                 \<and> s_mv_info s = Some mv
                 \<and> s_motion s = mb
                 \<and> s_JVmv_info s =
                     replicate MAX_PLANE
                       (if vid_separate_colour_plane_flag p_Vid = 0 then None else Some mv)
                 \<and> s_JVmotion s =
                     replicate MAX_PLANE
                       (if vid_separate_colour_plane_flag p_Vid = 0 then \<lparr>mb_field = None\<rparr>
                        else mb)
                 \<and> s_frame s = vid_no_reference_picture p_Vid
                 \<and> s_top_field s = vid_no_reference_picture p_Vid
                 \<and> s_bottom_field s = vid_no_reference_picture p_Vid)"
    using alloc_storable_picture_result[OF fit, of b is_output h] a fit
    unfolding Let_def
    by (auto simp: c_calloc_def read_sp_def)
qed

theorem alloc_storable_picture_sizes_witness:
  "picture_sizes_fit
     (example_vid\<lparr>vid_separate_colour_plane_flag := 1, vid_no_reference_picture := Some 7\<rparr>)
     TOP_FIELD 2048 1024 1024 512
   \<and> (\<exists>p h'. alloc_storable_picture example_build
                 (example_vid\<lparr>vid_separate_colour_plane_flag := 1,
                              vid_no_reference_picture := Some 7\<rparr>)
                 TOP_FIELD 2048 1024 1024 512 0 used_heap = Some (p, h')
         \<and> p = 8
         \<and> (\<exists>s. read_sp h' p = Some s
              \<and> s_structure s = TOP_FIELD
              \<and> s_size_x s = 2048 \<and> s_size_y s = 512
              \<and> s_size_x_cr s = 1024 \<and> s_size_y_cr s = 256
              \<and> s_imgY s = Some (Mem2Dpel_pad 512 2048 20 32)
              \<and> s_imgUV s = Some (Mem3Dpel_pad 2 256 1024 10 16)
              \<and> s_mv_info s = Some (Mem2Dmp 128 512)
              \<and> s_motion s = \<lparr>mb_field = Some (Bytes 65536)\<rparr>
              \<and> s_JVmv_info s = replicate 3 (Some (Mem2Dmp 128 512))
              \<and> s_JVmotion s = replicate 3 \<lparr>mb_field = Some (Bytes 65536)\<rparr>
              \<and> s_frame s = Some 7 \<and> s_top_field s = Some 7 \<and> s_bottom_field s = Some 7))"
proof -
  let ?vid = "example_vid\<lparr>vid_separate_colour_plane_flag := 1,
                          vid_no_reference_picture := Some 7\<rparr>"
  have v: "picture_height TOP_FIELD 1024 = 512" "picture_height TOP_FIELD 512 = 256"
      "shr 512 BLOCK_SHIFT = 128" "shr 2048 BLOCK_SHIFT = 512" "MAX_PLANE = 3"
      "brk used_heap = 8"
      "vid_iLumaPadY ?vid = 20" "vid_iLumaPadX ?vid = 32"
      "vid_iChromaPadY ?vid = 10" "vid_iChromaPadX ?vid = 16"
      "sps_chroma_format_idc (vid_active_sps ?vid) \<noteq> YUV400 example_build"
      "vid_separate_colour_plane_flag ?vid \<noteq> 0"
      "vid_no_reference_picture ?vid = Some 7"
    by (simp_all add: picture_height_def c_div_def shr_def BLOCK_SHIFT_def MAX_PLANE_def
        used_heap_def example_vid_def example_sps_def example_build_def)
  have fit: "picture_sizes_fit ?vid TOP_FIELD 2048 1024 1024 512"
    unfolding picture_sizes_fit_def Let_def v
    by (simp add: fits_int_def INT_MIN_def INT_MAX_def)
  obtain p h' where a: "alloc_storable_picture example_build ?vid TOP_FIELD 2048 1024 1024 512 0
                          used_heap = Some (p, h')"
    using alloc_storable_picture_sizes
            [of ?vid TOP_FIELD 2048 1024 1024 512 example_build 0 used_heap,
             THEN conjunct1, rule_format, OF fit]
    by blast
  show ?thesis
    using alloc_storable_picture_sizes
            [of ?vid TOP_FIELD 2048 1024 1024 512 example_build 0 used_heap,
             THEN conjunct2, rule_format, OF a]
      a fit
    unfolding Let_def v
    by (auto simp: example_vid_def example_sps_def example_build_def)
qed

text \<open>
  C10. \<open>free_frame_store\<close> and \<open>free_storable_picture\<close>, called with a null pointer, return
  with the heap as it was.
\<close>

theorem free_null_pointer_noop:
  "free_frame_store b None h = Some h \<and> free_storable_picture b None h = Some h"
  by (simp add: free_frame_store_def free_storable_picture_def)

end
